theory Spec2Isabelle
  imports Main "HOL-Library.Word"
begin

section \<open>Cursor move operations (src/vs/editor/common/controller/cursorMoveOperations.ts)\<close>

text \<open>
  A shallow embedding of the class \<open>MoveOperations\<close>.  Line numbers, columns and
  visible columns are JavaScript numbers that only ever hold integers here, so they
  are \<open>int\<close>.  A line's text is a JavaScript string: a sequence of UTF-16 code
  units.  A buffer accessor that is asked for a line outside \<open>[1, lineCount]\<close>
  throws; the exception is the \<open>Inl\<close> branch of a sum, and every operation that
  queries the buffer returns \<open>error + result\<close>.
\<close>

subsection \<open>Strings and the buffer view\<close>

type_synonym code_unit = "16 word"
type_synonym jsstring = "code_unit list"

datatype error = IllegalLineNumber int

definition andThen :: "error + 'a \<Rightarrow> ('a \<Rightarrow> error + 'b) \<Rightarrow> error + 'b" where
  \<comment> \<open>Sequencing of two computations that may throw: the first exception wins.\<close>
  "andThen r f = (case r of Inl e \<Rightarrow> Inl e | Inr x \<Rightarrow> f x)"

text \<open>
  Modelled from the spec: the buffer view \<open>ICursorSimpleModel\<close> (declared in
  cursorCommon.ts, which is not part of the sources).  The spec gives it five read-only
  accessors: the line count; a line's text; its min column, always 1; its max column,
  text length + 1; and the column of its first non-whitespace character, or none when
  the line is all whitespace.  A buffer is the list of its lines.  The accessors that
  read a line fail on a line number outside \<open>[1, lineCount]\<close>.
\<close>

type_synonym ICursorSimpleModel = "jsstring list"

definition getLineCount :: "ICursorSimpleModel \<Rightarrow> int" where
  \<comment> \<open>Modelled from the spec: \<open>lineCount()\<close> of the buffer view.\<close>
  "getLineCount model = int (length model)"

definition getLineContent :: "ICursorSimpleModel \<Rightarrow> int \<Rightarrow> error + jsstring" where
  \<comment> \<open>Modelled from the spec: \<open>lineContent(lineNumber)\<close> of the buffer view; a line number outside \<open>[1, lineCount]\<close> is a failure.\<close>
  "getLineContent model lineNumber =
     (if 1 \<le> lineNumber \<and> lineNumber \<le> getLineCount model
      then Inr (model ! nat (lineNumber - 1))
      else Inl (IllegalLineNumber lineNumber))"

definition getLineMinColumn :: "ICursorSimpleModel \<Rightarrow> int \<Rightarrow> int" where
  \<comment> \<open>Modelled from the spec: \<open>lineMinColumn(lineNumber)\<close> of the buffer view, always 1.\<close>
  "getLineMinColumn model lineNumber = 1"

definition getLineMaxColumn :: "ICursorSimpleModel \<Rightarrow> int \<Rightarrow> error + int" where
  \<comment> \<open>Modelled from the spec: \<open>lineMaxColumn(lineNumber)\<close> of the buffer view, text length + 1.\<close>
  "getLineMaxColumn model lineNumber =
     andThen (getLineContent model lineNumber) (\<lambda>content. Inr (int (length content) + 1))"

definition isWhitespace :: "code_unit \<Rightarrow> bool" where
  \<comment> \<open>Modelled from the spec: whitespace of \<open>lineFirstNonWhitespaceColumn\<close>, a space or a tab.\<close>
  "isWhitespace c = (c = 32 \<or> c = 9)"

fun firstNonWhitespaceIndex :: "jsstring \<Rightarrow> int \<Rightarrow> int option" where
  \<comment> \<open>Modelled from the spec: the index of the first character of the line that is not whitespace, none on a blank line.\<close>
  "firstNonWhitespaceIndex [] i = None"
| "firstNonWhitespaceIndex (c # cs) i =
     (if isWhitespace c then firstNonWhitespaceIndex cs (i + 1) else Some i)"

definition getLineFirstNonWhitespaceColumn ::
  "ICursorSimpleModel \<Rightarrow> int \<Rightarrow> error + int option" where
  \<comment> \<open>Modelled from the spec: \<open>lineFirstNonWhitespaceColumn(lineNumber)\<close> of the buffer view, a column or none.\<close>
  "getLineFirstNonWhitespaceColumn model lineNumber =
     andThen (getLineContent model lineNumber)
       (\<lambda>content. Inr (map_option (\<lambda>i. i + 1) (firstNonWhitespaceIndex content 0)))"

text \<open>
  \<open>strings.prevCharLength\<close> and \<open>strings.nextCharLength\<close> (vs/base/common/strings)
  are not among the sources.  The operations take them as a parameter: for a string and an
  offset into it, the length in code units of the logical character that ends at the
  offset, and of the one that starts there.  Nothing is assumed of the two functions
  here; what the spec promises of the horizontal step is stated further down as
  properties of the parameter, and the theorems name the ones they need.
\<close>

record Strings =
  prevCharLength :: "jsstring \<Rightarrow> int \<Rightarrow> int"
  nextCharLength :: "jsstring \<Rightarrow> int \<Rightarrow> int"

subsection \<open>The coordinate translator and the configuration\<close>

text \<open>
  Modelled from the spec: \<open>CursorColumns\<close> (cursorCommon.ts, not part of the
  sources).  \<open>visibleColumnFromColumn\<close> walks the line's characters from its start
  up to the column and accumulates visible width: a tab advances to the next multiple
  of \<open>tabSize\<close>, every other character contributes 1.  \<open>columnFromVisibleColumn\<close>
  walks the characters until the accumulated width reaches or exceeds the target and
  returns the column there; a target strictly between two columns' visible positions
  gives the earlier one.  \<open>columnFromVisibleColumn2\<close> is that column clamped to the
  line's \<open>[minColumn, maxColumn]\<close>.
\<close>

definition nextTabStop :: "int \<Rightarrow> int \<Rightarrow> int" where
  \<comment> \<open>Modelled from the spec: a tab advances to the next multiple of the tab size (\<open>CursorColumns\<close> is absent).\<close>
  "nextTabStop visibleColumn tabSize = visibleColumn + tabSize - visibleColumn mod tabSize"

definition charWidth :: "code_unit \<Rightarrow> int \<Rightarrow> int \<Rightarrow> int" where
  \<comment> \<open>Modelled from the spec: the visible column after a character that starts at visible column \<open>result\<close>: the next tab stop for a tab, one more for any other character.\<close>
  "charWidth c tabSize result = (if c = 9 then nextTabStop result tabSize else result + 1)"

fun visibleWalk :: "jsstring \<Rightarrow> int \<Rightarrow> int \<Rightarrow> int" where
  \<comment> \<open>Modelled from the spec: the walk of \<open>visibleColumnFromColumn\<close> over the characters, accumulating visible width.\<close>
  "visibleWalk [] tabSize result = result"
| "visibleWalk (c # cs) tabSize result = visibleWalk cs tabSize (charWidth c tabSize result)"

definition visibleColumnFromColumn :: "jsstring \<Rightarrow> int \<Rightarrow> int \<Rightarrow> int" where
  \<comment> \<open>Modelled from the spec: \<open>CursorColumns.visibleColumnFromColumn\<close>, the visible width of the characters before the column.\<close>
  "visibleColumnFromColumn lineContent column tabSize =
     visibleWalk (take (nat (column - 1)) lineContent) tabSize 0"

fun columnWalk :: "jsstring \<Rightarrow> int \<Rightarrow> int \<Rightarrow> int \<Rightarrow> int \<Rightarrow> int" where
  \<comment> \<open>Modelled from the spec: the walk of \<open>columnFromVisibleColumn\<close>: stop at the first character after which the width reaches or exceeds the target; the column after it when the width is the target, the column before it otherwise.\<close>
  "columnWalk [] visibleColumn tabSize i beforeVisibleColumn = i + 1"
| "columnWalk (c # cs) visibleColumn tabSize i beforeVisibleColumn =
     (let afterVisibleColumn = charWidth c tabSize beforeVisibleColumn in
      if afterVisibleColumn \<ge> visibleColumn
      then (if afterVisibleColumn = visibleColumn then i + 2 else i + 1)
      else columnWalk cs visibleColumn tabSize (i + 1) afterVisibleColumn)"

definition columnFromVisibleColumn :: "jsstring \<Rightarrow> int \<Rightarrow> int \<Rightarrow> int" where
  \<comment> \<open>Modelled from the spec: \<open>CursorColumns.columnFromVisibleColumn\<close>, the column of a visible column, rounded down.\<close>
  "columnFromVisibleColumn lineContent visibleColumn tabSize =
     columnWalk lineContent visibleColumn tabSize 0 0"

text \<open>The configuration: the tab size, consulted by the vertical moves only.\<close>

record CursorConfiguration =
  tabSize :: int

definition columnFromVisibleColumn2 ::
  "CursorConfiguration \<Rightarrow> ICursorSimpleModel \<Rightarrow> int \<Rightarrow> int \<Rightarrow> error + int" where
  \<comment> \<open>Modelled from the spec: \<open>CursorColumns.columnFromVisibleColumn2\<close>, the column of a visible column on a line of the buffer, clamped to the line.\<close>
  "columnFromVisibleColumn2 config model lineNumber visibleColumn =
     andThen (getLineContent model lineNumber) (\<lambda>content.
       let result = columnFromVisibleColumn content visibleColumn (tabSize config);
           minColumn = getLineMinColumn model lineNumber
       in if result < minColumn then Inr minColumn
          else andThen (getLineMaxColumn model lineNumber) (\<lambda>maxColumn.
                 if result > maxColumn then Inr maxColumn else Inr result))"

subsection \<open>Positions, selections and the cursor state\<close>

record Position =
  lineNumber :: int
  column :: int

text \<open>\<open>CursorPosition\<close>: a position with the leftover visible columns of a vertical step.\<close>

record CursorPosition = Position +
  leftoverVisibleColumns :: int

text \<open>
  Modelled from the spec: \<open>SingleCursorState\<close> and its \<open>selection\<close>
  (cursorCommon.ts, not part of the sources).  The spec's cursor state holds the
  anchor with its leftover, the floating end with its leftover, and the sticky-end
  flag; the source reads the flag as \<open>cursor.isEnd\<close>.  The anchor is a position: the
  source builds it as the collapsed range \<open>Range(l, c, l, c)\<close>.  The selection is the
  pair of anchor and floating end together with the two normalised into start \<le> end
  order; anchor = floating end is a bare caret.
\<close>

record SingleCursorState =
  selectionStart :: Position
  selectionStartLeftoverVisibleColumns :: int
  position :: Position
  leftoverVisibleColumns :: int
  isEnd :: bool

record Selection =
  selectionStartLineNumber :: int
  selectionStartColumn :: int
  positionLineNumber :: int
  positionColumn :: int
  startLineNumber :: int
  startColumn :: int
  endLineNumber :: int
  endColumn :: int

definition isBefore :: "Position \<Rightarrow> Position \<Rightarrow> bool" where
  \<comment> \<open>Modelled from the spec: the order of positions that normalises a selection (\<open>Position\<close> is absent).\<close>
  "isBefore a b =
     (lineNumber a < lineNumber b \<or> (lineNumber a = lineNumber b \<and> column a < column b))"

definition selection :: "SingleCursorState \<Rightarrow> Selection" where
  \<comment> \<open>Modelled from the spec: \<open>SingleCursorState.selection\<close>: anchor and floating end, and the two in start \<le> end order.\<close>
  "selection cursor =
     (let a = selectionStart cursor; p = position cursor;
          s = (if isBefore p a then p else a);
          e = (if isBefore p a then a else p)
      in \<lparr> selectionStartLineNumber = lineNumber a, selectionStartColumn = column a,
           positionLineNumber = lineNumber p, positionColumn = column p,
           startLineNumber = lineNumber s, startColumn = column s,
           endLineNumber = lineNumber e, endColumn = column e \<rparr>)"

definition hasSelection :: "SingleCursorState \<Rightarrow> bool" where
  \<comment> \<open>Modelled from the spec: \<open>SingleCursorState.hasSelection\<close>: the anchor is not the floating end.\<close>
  "hasSelection cursor =
     (\<not> (lineNumber (selectionStart cursor) = lineNumber (position cursor)
         \<and> column (selectionStart cursor) = column (position cursor)))"

text \<open>
  Modelled from the spec: \<open>SingleCursorState.move\<close>.  With the selection-mode flag
  only the floating end moves and the anchor is preserved; without it both anchor and
  end collapse to the destination.  The last argument is the sticky-end flag of the
  new state; the source leaves it out (a falsy \<open>undefined\<close>) everywhere but in
  \<open>moveDown\<close>, \<open>moveUp\<close> and \<open>moveToEndOfLine\<close>.
\<close>

definition move ::
  "SingleCursorState \<Rightarrow> bool \<Rightarrow> int \<Rightarrow> int \<Rightarrow> int \<Rightarrow> bool \<Rightarrow> SingleCursorState" where
  \<comment> \<open>Modelled from the spec: \<open>SingleCursorState.move\<close>.\<close>
  "move cursor inSelectionMode lineNumber' column' leftover isEnd' =
     (if inSelectionMode
      then \<lparr> selectionStart = selectionStart cursor,
             selectionStartLeftoverVisibleColumns = selectionStartLeftoverVisibleColumns cursor,
             position = \<lparr> lineNumber = lineNumber', column = column' \<rparr>,
             leftoverVisibleColumns = leftover,
             isEnd = isEnd' \<rparr>
      else \<lparr> selectionStart = \<lparr> lineNumber = lineNumber', column = column' \<rparr>,
             selectionStartLeftoverVisibleColumns = leftover,
             position = \<lparr> lineNumber = lineNumber', column = column' \<rparr>,
             leftoverVisibleColumns = leftover,
             isEnd = isEnd' \<rparr>)"

subsection \<open>MoveOperations: horizontal movement\<close>

definition leftPosition ::
  "Strings \<Rightarrow> ICursorSimpleModel \<Rightarrow> int \<Rightarrow> int \<Rightarrow> error + Position" where
  "leftPosition strings model lineNumber' column' =
     (if column' > getLineMinColumn model lineNumber'
      then andThen (getLineContent model lineNumber') (\<lambda>content.
             Inr \<lparr> lineNumber = lineNumber',
                   column = column' - prevCharLength strings content (column' - 1) \<rparr>)
      else if lineNumber' > 1
      then andThen (getLineMaxColumn model (lineNumber' - 1)) (\<lambda>maxColumn.
             Inr \<lparr> lineNumber = lineNumber' - 1, column = maxColumn \<rparr>)
      else Inr \<lparr> lineNumber = lineNumber', column = column' \<rparr>)"

definition left ::
  "Strings \<Rightarrow> CursorConfiguration \<Rightarrow> ICursorSimpleModel \<Rightarrow> int \<Rightarrow> int \<Rightarrow> error + CursorPosition" where
  "left strings config model lineNumber' column' =
     andThen (leftPosition strings model lineNumber' column') (\<lambda>pos.
       Inr \<lparr> lineNumber = lineNumber pos, column = column pos,
             CursorPosition.leftoverVisibleColumns = 0 \<rparr>)"

definition moveLeft ::
  "Strings \<Rightarrow> CursorConfiguration \<Rightarrow> ICursorSimpleModel \<Rightarrow> SingleCursorState \<Rightarrow> bool \<Rightarrow> int
     \<Rightarrow> error + SingleCursorState" where
  "moveLeft strings config model cursor inSelectionMode noOfColumns =
     (if hasSelection cursor \<and> \<not> inSelectionMode
      then Inr (move cursor inSelectionMode
                  (startLineNumber (selection cursor)) (startColumn (selection cursor)) 0 False)
      else andThen (left strings config model (lineNumber (position cursor))
                      (column (position cursor) - (noOfColumns - 1)))
             (\<lambda>r. Inr (move cursor inSelectionMode (lineNumber r) (column r) 0 False)))"

definition rightPosition ::
  "Strings \<Rightarrow> ICursorSimpleModel \<Rightarrow> int \<Rightarrow> int \<Rightarrow> error + Position" where
  "rightPosition strings model lineNumber' column' =
     andThen (getLineMaxColumn model lineNumber') (\<lambda>maxColumn.
       if column' < maxColumn
       then andThen (getLineContent model lineNumber') (\<lambda>content.
              Inr \<lparr> lineNumber = lineNumber',
                    column = column' + nextCharLength strings content (column' - 1) \<rparr>)
       else if lineNumber' < getLineCount model
       then Inr \<lparr> lineNumber = lineNumber' + 1,
                  column = getLineMinColumn model (lineNumber' + 1) \<rparr>
       else Inr \<lparr> lineNumber = lineNumber', column = column' \<rparr>)"

definition right ::
  "Strings \<Rightarrow> CursorConfiguration \<Rightarrow> ICursorSimpleModel \<Rightarrow> int \<Rightarrow> int \<Rightarrow> error + CursorPosition" where
  "right strings config model lineNumber' column' =
     andThen (rightPosition strings model lineNumber' column') (\<lambda>pos.
       Inr \<lparr> lineNumber = lineNumber pos, column = column pos,
             CursorPosition.leftoverVisibleColumns = 0 \<rparr>)"

definition moveRight ::
  "Strings \<Rightarrow> CursorConfiguration \<Rightarrow> ICursorSimpleModel \<Rightarrow> SingleCursorState \<Rightarrow> bool \<Rightarrow> int
     \<Rightarrow> error + SingleCursorState" where
  "moveRight strings config model cursor inSelectionMode noOfColumns =
     (if hasSelection cursor \<and> \<not> inSelectionMode
      then Inr (move cursor inSelectionMode
                  (endLineNumber (selection cursor)) (endColumn (selection cursor)) 0 False)
      else andThen (right strings config model (lineNumber (position cursor))
                      (column (position cursor) + (noOfColumns - 1)))
             (\<lambda>r. Inr (move cursor inSelectionMode (lineNumber r) (column r) 0 False)))"

subsection \<open>MoveOperations: vertical movement\<close>

definition down ::
  "CursorConfiguration \<Rightarrow> ICursorSimpleModel \<Rightarrow> int \<Rightarrow> int \<Rightarrow> int \<Rightarrow> int \<Rightarrow> bool
     \<Rightarrow> error + CursorPosition" where
  "down config model lineNumber' column' leftover count allowMoveOnLastLine =
     andThen (getLineContent model lineNumber') (\<lambda>content.
       let currentVisibleColumn =
             visibleColumnFromColumn content column' (tabSize config) + leftover;
           lineCount = getLineCount model
       in andThen
            (if lineNumber' + count > lineCount
             then andThen (getLineMaxColumn model lineCount) (\<lambda>maxColumn.
                    Inr \<lparr> lineNumber = lineCount,
                          column = (if allowMoveOnLastLine then maxColumn
                                    else min maxColumn column') \<rparr>)
             else andThen
                    (columnFromVisibleColumn2 config model (lineNumber' + count)
                       currentVisibleColumn)
                    (\<lambda>c. Inr \<lparr> lineNumber = lineNumber' + count, column = c \<rparr>))
            (\<lambda>p. andThen (getLineContent model (lineNumber p)) (\<lambda>content'.
               Inr \<lparr> lineNumber = lineNumber p, column = column p,
                     CursorPosition.leftoverVisibleColumns =
                       currentVisibleColumn
                       - visibleColumnFromColumn content' (column p) (tabSize config) \<rparr>)))"

definition moveDown ::
  "CursorConfiguration \<Rightarrow> ICursorSimpleModel \<Rightarrow> SingleCursorState \<Rightarrow> bool \<Rightarrow> int
     \<Rightarrow> error + SingleCursorState" where
  "moveDown config model cursor inSelectionMode linesCount =
     (let start = (if hasSelection cursor \<and> \<not> inSelectionMode
                   then \<lparr> lineNumber = endLineNumber (selection cursor),
                          column = endColumn (selection cursor) \<rparr>
                   else \<lparr> lineNumber = lineNumber (position cursor),
                          column = column (position cursor) \<rparr>)
      in andThen (if isEnd cursor then getLineMaxColumn model (lineNumber start + 1)
                  else Inr (column start))
           (\<lambda>column'.
              andThen (down config model (lineNumber start) column'
                         (SingleCursorState.leftoverVisibleColumns cursor) linesCount True)
                (\<lambda>r. Inr (move cursor inSelectionMode (lineNumber r)
                             (if isEnd cursor then column' else column r)
                             (CursorPosition.leftoverVisibleColumns r) (isEnd cursor)))))"

definition translateDown ::
  "CursorConfiguration \<Rightarrow> ICursorSimpleModel \<Rightarrow> SingleCursorState
     \<Rightarrow> error + SingleCursorState" where
  "translateDown config model cursor =
     (let selection' = selection cursor
      in andThen (down config model (selectionStartLineNumber selection')
                    (selectionStartColumn selection')
                    (selectionStartLeftoverVisibleColumns cursor) 1 False)
           (\<lambda>selectionStart'.
              andThen (down config model (positionLineNumber selection')
                         (positionColumn selection')
                         (SingleCursorState.leftoverVisibleColumns cursor) 1 False)
                (\<lambda>position'.
                   Inr \<lparr> selectionStart = \<lparr> lineNumber = lineNumber selectionStart',
                                            column = column selectionStart' \<rparr>,
                         selectionStartLeftoverVisibleColumns =
                           CursorPosition.leftoverVisibleColumns selectionStart',
                         position = \<lparr> lineNumber = lineNumber position',
                                      column = column position' \<rparr>,
                         leftoverVisibleColumns =
                           CursorPosition.leftoverVisibleColumns position',
                         isEnd = False \<rparr>)))"

definition up ::
  "CursorConfiguration \<Rightarrow> ICursorSimpleModel \<Rightarrow> int \<Rightarrow> int \<Rightarrow> int \<Rightarrow> int \<Rightarrow> bool
     \<Rightarrow> error + CursorPosition" where
  "up config model lineNumber' column' leftover count allowMoveOnFirstLine =
     andThen (getLineContent model lineNumber') (\<lambda>content.
       let currentVisibleColumn =
             visibleColumnFromColumn content column' (tabSize config) + leftover
       in andThen
            (if lineNumber' - count < 1
             then (if allowMoveOnFirstLine
                   then Inr \<lparr> lineNumber = 1, column = getLineMinColumn model 1 \<rparr>
                   else andThen (getLineMaxColumn model 1) (\<lambda>maxColumn.
                          Inr \<lparr> lineNumber = 1, column = min maxColumn column' \<rparr>))
             else andThen
                    (columnFromVisibleColumn2 config model (lineNumber' - count)
                       currentVisibleColumn)
                    (\<lambda>c. Inr \<lparr> lineNumber = lineNumber' - count, column = c \<rparr>))
            (\<lambda>p. andThen (getLineContent model (lineNumber p)) (\<lambda>content'.
               Inr \<lparr> lineNumber = lineNumber p, column = column p,
                     CursorPosition.leftoverVisibleColumns =
                       currentVisibleColumn
                       - visibleColumnFromColumn content' (column p) (tabSize config) \<rparr>)))"

definition moveUp ::
  "CursorConfiguration \<Rightarrow> ICursorSimpleModel \<Rightarrow> SingleCursorState \<Rightarrow> bool \<Rightarrow> int
     \<Rightarrow> error + SingleCursorState" where
  "moveUp config model cursor inSelectionMode linesCount =
     (let start = (if hasSelection cursor \<and> \<not> inSelectionMode
                   then \<lparr> lineNumber = startLineNumber (selection cursor),
                          column = startColumn (selection cursor) \<rparr>
                   else \<lparr> lineNumber = lineNumber (position cursor),
                          column = column (position cursor) \<rparr>)
      in andThen (if isEnd cursor then getLineMaxColumn model (lineNumber start - 1)
                  else Inr (column start))
           (\<lambda>column'.
              andThen (up config model (lineNumber start) column'
                         (SingleCursorState.leftoverVisibleColumns cursor) linesCount True)
                (\<lambda>r. Inr (move cursor inSelectionMode (lineNumber r)
                             (if isEnd cursor then column' else column r)
                             (CursorPosition.leftoverVisibleColumns r) (isEnd cursor)))))"

definition translateUp ::
  "CursorConfiguration \<Rightarrow> ICursorSimpleModel \<Rightarrow> SingleCursorState
     \<Rightarrow> error + SingleCursorState" where
  "translateUp config model cursor =
     (let selection' = selection cursor
      in andThen (up config model (selectionStartLineNumber selection')
                    (selectionStartColumn selection')
                    (selectionStartLeftoverVisibleColumns cursor) 1 False)
           (\<lambda>selectionStart'.
              andThen (up config model (positionLineNumber selection')
                         (positionColumn selection')
                         (SingleCursorState.leftoverVisibleColumns cursor) 1 False)
                (\<lambda>position'.
                   Inr \<lparr> selectionStart = \<lparr> lineNumber = lineNumber selectionStart',
                                            column = column selectionStart' \<rparr>,
                         selectionStartLeftoverVisibleColumns =
                           CursorPosition.leftoverVisibleColumns selectionStart',
                         position = \<lparr> lineNumber = lineNumber position',
                                      column = column position' \<rparr>,
                         leftoverVisibleColumns =
                           CursorPosition.leftoverVisibleColumns position',
                         isEnd = False \<rparr>)))"

subsection \<open>MoveOperations: line-relative and buffer-relative movement\<close>

definition orElse :: "int option \<Rightarrow> int \<Rightarrow> int" where
  \<comment> \<open>JavaScript's \<open>a || b\<close> on a number or none: \<open>b\<close> when \<open>a\<close> is none or 0.\<close>
  "orElse a b = (case a of None \<Rightarrow> b | Some v \<Rightarrow> if v = 0 then b else v)"

definition moveToBeginningOfLine ::
  "CursorConfiguration \<Rightarrow> ICursorSimpleModel \<Rightarrow> SingleCursorState \<Rightarrow> bool
     \<Rightarrow> error + SingleCursorState" where
  "moveToBeginningOfLine config model cursor inSelectionMode =
     (let lineNumber' = lineNumber (position cursor);
          minColumn = getLineMinColumn model lineNumber'
      in andThen (getLineFirstNonWhitespaceColumn model lineNumber') (\<lambda>fnw.
           let firstNonBlankColumn = orElse fnw minColumn;
               relevantColumnNumber = column (position cursor);
               column' = (if relevantColumnNumber = firstNonBlankColumn then minColumn
                          else firstNonBlankColumn)
           in Inr (move cursor inSelectionMode lineNumber' column' 0 False)))"

definition moveToEndOfLine ::
  "CursorConfiguration \<Rightarrow> ICursorSimpleModel \<Rightarrow> SingleCursorState \<Rightarrow> bool
     \<Rightarrow> error + SingleCursorState" where
  "moveToEndOfLine config model cursor inSelectionMode =
     (let lineNumber' = lineNumber (position cursor)
      in andThen (getLineMaxColumn model lineNumber') (\<lambda>maxColumn.
           Inr (move cursor inSelectionMode lineNumber' maxColumn 0 True)))"

definition moveToBeginningOfBuffer ::
  "CursorConfiguration \<Rightarrow> ICursorSimpleModel \<Rightarrow> SingleCursorState \<Rightarrow> bool
     \<Rightarrow> error + SingleCursorState" where
  "moveToBeginningOfBuffer config model cursor inSelectionMode =
     Inr (move cursor inSelectionMode 1 1 0 False)"

definition moveToEndOfBuffer ::
  "CursorConfiguration \<Rightarrow> ICursorSimpleModel \<Rightarrow> SingleCursorState \<Rightarrow> bool
     \<Rightarrow> error + SingleCursorState" where
  "moveToEndOfBuffer config model cursor inSelectionMode =
     (let lastLineNumber = getLineCount model
      in andThen (getLineMaxColumn model lastLineNumber) (\<lambda>lastColumn.
           Inr (move cursor inSelectionMode lastLineNumber lastColumn 0 False)))"

subsection \<open>Notions used to state the properties\<close>

text \<open>A cursor state without a selection: anchor and floating end at the same place.\<close>

definition caret :: "int \<Rightarrow> int \<Rightarrow> int \<Rightarrow> bool \<Rightarrow> SingleCursorState" where
  "caret l c leftover sticky =
     \<lparr> selectionStart = \<lparr> lineNumber = l, column = c \<rparr>,
       selectionStartLeftoverVisibleColumns = leftover,
       position = \<lparr> lineNumber = l, column = c \<rparr>,
       leftoverVisibleColumns = leftover,
       isEnd = sticky \<rparr>"

text \<open>
  The position a vertical move starts from, as \<open>moveDown\<close> (towards the end) and
  \<open>moveUp\<close> (towards the start) choose it: the near boundary of the selection for a
  plain move out of a selection, the floating end otherwise.
\<close>

definition stepStart :: "SingleCursorState \<Rightarrow> bool \<Rightarrow> bool \<Rightarrow> Position" where
  "stepStart cursor inSelectionMode towardsEnd =
     (if hasSelection cursor \<and> \<not> inSelectionMode
      then (if towardsEnd
            then \<lparr> lineNumber = endLineNumber (selection cursor),
                   column = endColumn (selection cursor) \<rparr>
            else \<lparr> lineNumber = startLineNumber (selection cursor),
                   column = startColumn (selection cursor) \<rparr>)
      else \<lparr> lineNumber = lineNumber (position cursor),
             column = column (position cursor) \<rparr>)"

text \<open>
  The first non-blank column of a line as the spec words it: the column of the first
  character that is not whitespace, or the min column 1 when the line is all blank.
\<close>

definition firstNonBlankColumn :: "jsstring \<Rightarrow> int" where
  "firstNonBlankColumn content =
     (if list_all isWhitespace content then 1
      else int (length (takeWhile isWhitespace content)) + 1)"

text \<open>
  The horizontal step as the spec words it for \<open>moveLeft\<close> and \<open>moveRight\<close>: the
  one-character step applied a number of times, each from where the one before ended.
\<close>

fun leftPositionTimes ::
  "Strings \<Rightarrow> nat \<Rightarrow> ICursorSimpleModel \<Rightarrow> Position \<Rightarrow> error + Position" where
  "leftPositionTimes strings 0 model p = Inr p"
| "leftPositionTimes strings (Suc n) model p =
     andThen (leftPosition strings model (lineNumber p) (column p))
       (leftPositionTimes strings n model)"

fun rightPositionTimes ::
  "Strings \<Rightarrow> nat \<Rightarrow> ICursorSimpleModel \<Rightarrow> Position \<Rightarrow> error + Position" where
  "rightPositionTimes strings 0 model p = Inr p"
| "rightPositionTimes strings (Suc n) model p =
     andThen (rightPosition strings model (lineNumber p) (column p))
       (rightPositionTimes strings n model)"

text \<open>
  Modelled from the spec: the logical characters of a line, which the spec names without
  defining them (logical grapheme boundaries; a multi-code-unit character, for example a
  surrogate pair, is one character).  They are read off the parameter: the character
  boundaries of a line are the offsets reached from offset 0 by adding, again and again,
  the length of the character that starts at the offset reached, up to the end of the
  line.  A line of \<open>n\<close> code units has at most \<open>n\<close> characters, so \<open>n\<close> steps
  reach its end.
\<close>

fun boundaryWalk :: "(jsstring \<Rightarrow> int \<Rightarrow> int) \<Rightarrow> jsstring \<Rightarrow> nat \<Rightarrow> int \<Rightarrow> int list" where
  \<comment> \<open>Modelled from the spec: the offsets reached from an offset by stepping over one character at a time, in at most the given number of steps.\<close>
  "boundaryWalk charLength content 0 offset = [offset]"
| "boundaryWalk charLength content (Suc steps) offset =
     (if offset < int (length content)
      then offset # boundaryWalk charLength content steps (offset + charLength content offset)
      else [offset])"

definition characterBoundaries :: "Strings \<Rightarrow> jsstring \<Rightarrow> int list" where
  \<comment> \<open>Modelled from the spec: the offsets of a line at which a logical character starts or the line ends.\<close>
  "characterBoundaries strings content =
     boundaryWalk (nextCharLength strings) content (length content) 0"

text \<open>
  A column that splits a character: it lies strictly between the line's min and max
  column and the offset before it is not a character boundary.
\<close>

definition insideCharacter :: "Strings \<Rightarrow> jsstring \<Rightarrow> int \<Rightarrow> bool" where
  \<comment> \<open>Modelled from the spec: a column that splits a multi-code-unit character of the line.\<close>
  "insideCharacter strings content c =
     (1 < c \<and> c < int (length content) + 1
      \<and> c - 1 \<notin> set (characterBoundaries strings content))"

text \<open>
  Modelled from the spec: the contract of the horizontal step, "moves by exactly one
  logical character, treating any multi-code-unit character as a single atomic step",
  as a property of the parameter on a line.  A character that starts at a boundary
  before the end of the line has at least one code unit and ends inside the line, and
  the character that ends where it ends is that character.
\<close>

definition atomicSteps :: "Strings \<Rightarrow> jsstring \<Rightarrow> bool" where
  \<comment> \<open>Modelled from the spec: from a character boundary, the step moves by exactly one logical character.\<close>
  "atomicSteps strings content =
     list_all
       (\<lambda>b. if b < int (length content)
            then 1 \<le> nextCharLength strings content b
                 \<and> b + nextCharLength strings content b \<le> int (length content)
                 \<and> prevCharLength strings content (b + nextCharLength strings content b)
                     = nextCharLength strings content b
            else True)
       (characterBoundaries strings content)"

text \<open>
  Modelled from the spec: "never splitting it", as a property of the parameter on a line.
  From any offset of the line, a boundary or not, the character the parameter reports as
  starting there ends at a boundary, and the one it reports as ending there starts at a
  boundary.
\<close>

definition stepsEndAtBoundaries :: "Strings \<Rightarrow> jsstring \<Rightarrow> bool" where
  \<comment> \<open>Modelled from the spec: from any offset, the step never ends inside a character.\<close>
  "stepsEndAtBoundaries strings content =
     (list_all
        (\<lambda>offset. offset + nextCharLength strings content offset
                    \<in> set (characterBoundaries strings content))
        [0..int (length content) - 1]
      \<and> list_all
        (\<lambda>offset. offset - prevCharLength strings content offset
                    \<in> set (characterBoundaries strings content))
        [1..int (length content)])"

text \<open>
  Modelled from the spec: the example the spec gives of a multi-code-unit character, the
  surrogate pair, as one instance of the parameter, for the concrete inputs below.  A
  high surrogate followed by a low surrogate is one character of two code units; every
  other code unit is a character of its own.  An offset outside the string reads no
  code unit.
\<close>

definition isHighSurrogate :: "code_unit \<Rightarrow> bool" where
  \<comment> \<open>Modelled from the spec: the first code unit of a surrogate pair, U+D800 to U+DBFF.\<close>
  "isHighSurrogate c = (0xD800 \<le> c \<and> c \<le> 0xDBFF)"

definition isLowSurrogate :: "code_unit \<Rightarrow> bool" where
  \<comment> \<open>Modelled from the spec: the second code unit of a surrogate pair, U+DC00 to U+DFFF.\<close>
  "isLowSurrogate c = (0xDC00 \<le> c \<and> c \<le> 0xDFFF)"

definition surrogatePairNextCharLength :: "jsstring \<Rightarrow> int \<Rightarrow> int" where
  \<comment> \<open>Modelled from the spec: the length of the character that starts at the offset, when surrogate pairs are the only multi-code-unit characters.\<close>
  "surrogatePairNextCharLength str offset =
     (if 0 \<le> offset \<and> offset + 1 < int (length str)
         \<and> isHighSurrogate (str ! nat offset) \<and> isLowSurrogate (str ! nat (offset + 1))
      then 2 else 1)"

definition surrogatePairPrevCharLength :: "jsstring \<Rightarrow> int \<Rightarrow> int" where
  \<comment> \<open>Modelled from the spec: the length of the character that ends at the offset, when surrogate pairs are the only multi-code-unit characters.\<close>
  "surrogatePairPrevCharLength str offset =
     (if 2 \<le> offset \<and> offset \<le> int (length str)
         \<and> isLowSurrogate (str ! nat (offset - 1)) \<and> isHighSurrogate (str ! nat (offset - 2))
      then 2 else 1)"

definition surrogatePairs :: Strings where
  \<comment> \<open>Modelled from the spec: the instance of the parameter in which surrogate pairs are the only multi-code-unit characters.\<close>
  "surrogatePairs =
     \<lparr> prevCharLength = surrogatePairPrevCharLength,
       nextCharLength = surrogatePairNextCharLength \<rparr>"

text \<open>The invariant the spec states for a cursor state: neither leftover is negative.\<close>

definition leftoversNonNegative :: "SingleCursorState \<Rightarrow> bool" where
  "leftoversNonNegative cursor =
     (0 \<le> SingleCursorState.leftoverVisibleColumns cursor
      \<and> 0 \<le> selectionStartLeftoverVisibleColumns cursor)"

section \<open>Basic facts\<close>

lemma andThen_Inr: "andThen (Inr x) f = f x"
  by (simp add: andThen_def)

lemma andThen_Inl: "andThen (Inl e) f = Inl e"
  by (simp add: andThen_def)

lemma getLineContent_valid:
  "1 \<le> n \<Longrightarrow> n \<le> getLineCount m \<Longrightarrow> getLineContent m n = Inr (m ! nat (n - 1))"
  by (simp add: getLineContent_def)

lemma getLineContent_invalid:
  "n < 1 \<or> getLineCount m < n \<Longrightarrow> getLineContent m n = Inl (IllegalLineNumber n)"
  by (auto simp add: getLineContent_def)

lemma getLineMaxColumn_valid:
  "1 \<le> n \<Longrightarrow> n \<le> getLineCount m \<Longrightarrow>
   getLineMaxColumn m n = Inr (int (length (m ! nat (n - 1))) + 1)"
  by (simp add: getLineMaxColumn_def getLineContent_valid andThen_Inr)

lemma getLineMaxColumn_invalid:
  "n < 1 \<or> getLineCount m < n \<Longrightarrow> getLineMaxColumn m n = Inl (IllegalLineNumber n)"
  by (simp add: getLineMaxColumn_def getLineContent_invalid andThen_Inl)

lemma getLineContent_InrD:
  "getLineContent m n = Inr s \<Longrightarrow> 1 \<le> n \<and> n \<le> getLineCount m \<and> s = m ! nat (n - 1)"
  by (auto simp add: getLineContent_def split: if_splits)

lemma getLineMaxColumn_content:
  "getLineContent m n = Inr s \<Longrightarrow> getLineMaxColumn m n = Inr (int (length s) + 1)"
  by (simp add: getLineMaxColumn_def andThen_Inr)

lemma columnWalk_bounds:
  "i + 1 \<le> columnWalk cs v ts i b \<and> columnWalk cs v ts i b \<le> i + 1 + int (length cs)"
proof (induction cs arbitrary: i b)
  case Nil
  show ?case by simp
next
  case (Cons c cs)
  from Cons.IH [of "i + 1" "charWidth c ts b"]
  show ?case by (simp add: Let_def)
qed

lemma columnFromVisibleColumn_bounds:
  "1 \<le> columnFromVisibleColumn s v ts \<and> columnFromVisibleColumn s v ts \<le> int (length s) + 1"
  using columnWalk_bounds [of 0 s v ts 0] by (simp add: columnFromVisibleColumn_def)

lemma columnFromVisibleColumn2_content:
  assumes "getLineContent m n = Inr s"
  shows "columnFromVisibleColumn2 cfg m n v = Inr (columnFromVisibleColumn s v (tabSize cfg))"
  using assms columnFromVisibleColumn_bounds [of s v "tabSize cfg"]
  by (simp add: columnFromVisibleColumn2_def andThen_Inr Let_def getLineMinColumn_def
        getLineMaxColumn_content)

lemma down_unclamped:
  assumes "getLineContent m l = Inr s" and "getLineContent m (l + count) = Inr s'"
  shows "down cfg m l c lo count allow =
           Inr \<lparr> lineNumber = l + count,
                 column = columnFromVisibleColumn s' (visibleColumnFromColumn s c (tabSize cfg) + lo) (tabSize cfg),
                 CursorPosition.leftoverVisibleColumns =
                   visibleColumnFromColumn s c (tabSize cfg) + lo
                   - visibleColumnFromColumn s'
                       (columnFromVisibleColumn s' (visibleColumnFromColumn s c (tabSize cfg) + lo) (tabSize cfg))
                       (tabSize cfg) \<rparr>"
proof -
  from assms(2) have "\<not> l + count > getLineCount m"
    by (auto dest: getLineContent_InrD)
  with assms show ?thesis
    by (simp add: down_def andThen_Inr Let_def columnFromVisibleColumn2_content)
qed

lemma down_clamped:
  assumes "getLineContent m l = Inr s" and "l + count > getLineCount m"
    and "getLineContent m (getLineCount m) = Inr s'"
  shows "down cfg m l c lo count allow =
           Inr \<lparr> lineNumber = getLineCount m,
                 column = (if allow then int (length s') + 1 else min (int (length s') + 1) c),
                 CursorPosition.leftoverVisibleColumns =
                   visibleColumnFromColumn s c (tabSize cfg) + lo
                   - visibleColumnFromColumn s'
                       (if allow then int (length s') + 1 else min (int (length s') + 1) c)
                       (tabSize cfg) \<rparr>"
  using assms
  by (simp add: down_def andThen_Inr Let_def getLineMaxColumn_content)

lemma up_unclamped:
  assumes "getLineContent m l = Inr s" and "getLineContent m (l - count) = Inr s'"
  shows "up cfg m l c lo count allow =
           Inr \<lparr> lineNumber = l - count,
                 column = columnFromVisibleColumn s' (visibleColumnFromColumn s c (tabSize cfg) + lo) (tabSize cfg),
                 CursorPosition.leftoverVisibleColumns =
                   visibleColumnFromColumn s c (tabSize cfg) + lo
                   - visibleColumnFromColumn s'
                       (columnFromVisibleColumn s' (visibleColumnFromColumn s c (tabSize cfg) + lo) (tabSize cfg))
                       (tabSize cfg) \<rparr>"
proof -
  from assms(2) have "\<not> l - count < 1"
    by (auto dest: getLineContent_InrD)
  with assms show ?thesis
    by (simp add: up_def andThen_Inr Let_def columnFromVisibleColumn2_content)
qed

lemma up_clamped:
  assumes "getLineContent m l = Inr s" and "l - count < 1"
    and "getLineContent m 1 = Inr s'"
  shows "up cfg m l c lo count allow =
           Inr \<lparr> lineNumber = 1,
                 column = (if allow then 1 else min (int (length s') + 1) c),
                 CursorPosition.leftoverVisibleColumns =
                   visibleColumnFromColumn s c (tabSize cfg) + lo
                   - visibleColumnFromColumn s'
                       (if allow then 1 else min (int (length s') + 1) c)
                       (tabSize cfg) \<rparr>"
  using assms
  by (simp add: up_def andThen_Inr Let_def getLineMaxColumn_content getLineMinColumn_def)

lemma visibleColumnFromColumn_min:
  "visibleColumnFromColumn s (min (int (length s) + 1) c) ts = visibleColumnFromColumn s c ts"
  by (simp add: visibleColumnFromColumn_def min_def)

lemma visibleColumnFromColumn_first: "visibleColumnFromColumn s 1 ts = 0"
  by (simp add: visibleColumnFromColumn_def)

section \<open>Sticky end of line at the first and the last line\<close>

text \<open>
  C3.  With the sticky-end flag set, \<open>moveDown\<close> asks the buffer for the max column
  of the line after the one it starts from, and \<open>moveUp\<close> for that of the line
  before.  Started on the last line, \<open>moveDown\<close> therefore queries line
  \<open>lineCount + 1\<close>, and \<open>moveUp\<close> started on line 1 queries line 0: both are
  outside \<open>[1, lineCount]\<close>, the accessor fails, and the move returns that error,
  whatever the number of lines to move by.
\<close>

theorem sticky_vertical_move_queries_line_outside_buffer:
  assumes "isEnd cursor"
  shows "(lineNumber (stepStart cursor inSelectionMode True) = getLineCount model \<longrightarrow>
            moveDown config model cursor inSelectionMode linesCount
              = Inl (IllegalLineNumber (getLineCount model + 1)))
       \<and> (lineNumber (stepStart cursor inSelectionMode False) = 1 \<longrightarrow>
            moveUp config model cursor inSelectionMode linesCount
              = Inl (IllegalLineNumber 0))"
proof (intro conjI impI)
  assume last: "lineNumber (stepStart cursor inSelectionMode True) = getLineCount model"
  have "getLineMaxColumn model (getLineCount model + 1)
          = Inl (IllegalLineNumber (getLineCount model + 1))"
    by (rule getLineMaxColumn_invalid) simp
  with assms last show "moveDown config model cursor inSelectionMode linesCount
      = Inl (IllegalLineNumber (getLineCount model + 1))"
    by (cases "hasSelection cursor"; cases inSelectionMode)
       (simp_all add: moveDown_def stepStart_def Let_def andThen_Inl)
next
  assume first: "lineNumber (stepStart cursor inSelectionMode False) = 1"
  have "getLineMaxColumn model 0 = Inl (IllegalLineNumber 0)"
    by (rule getLineMaxColumn_invalid) simp
  with assms first show "moveUp config model cursor inSelectionMode linesCount
      = Inl (IllegalLineNumber 0)"
    by (cases "hasSelection cursor"; cases inSelectionMode)
       (simp_all add: moveUp_def stepStart_def Let_def andThen_Inl)
qed

theorem sticky_vertical_move_queries_line_outside_buffer_witness:
  "isEnd (caret 1 4 0 True)
   \<and> lineNumber (stepStart (caret 1 4 0 True) False True) = getLineCount [[97, 98, 99]]
   \<and> moveDown \<lparr> tabSize = 4 \<rparr> [[97, 98, 99]] (caret 1 4 0 True) False 1
        = Inl (IllegalLineNumber 2)
   \<and> lineNumber (stepStart (caret 1 4 0 True) False False) = 1
   \<and> moveUp \<lparr> tabSize = 4 \<rparr> [[97, 98, 99]] (caret 1 4 0 True) False 1
        = Inl (IllegalLineNumber 0)"
  using sticky_vertical_move_queries_line_outside_buffer
          [of "caret 1 4 0 True" False "[[97, 98, 99]]" "\<lparr> tabSize = 4 \<rparr>" 1]
  by (simp add: caret_def stepStart_def hasSelection_def getLineCount_def)

section \<open>The vertical step at the first line\<close>

text \<open>
  C10.  From line 1 the step \<open>up\<close> by any count of at least 1 stays on line 1.  With the
  boundary flag disabled (as \<open>translateUp\<close> calls it) the column is the given one
  bounded by the line's max column, and the leftover is unchanged; with the flag enabled
  (as \<open>moveUp\<close> calls it) the column is the line's min column.  So \<open>moveUp\<close> from
  line 1, for a cursor that is not sticky, ends at line 1, min column, and
  \<open>translateUp\<close> of a cursor on line 1 keeps both its columns, bounded by the max
  column.
\<close>

theorem up_from_first_line:
  assumes "1 \<le> count" and "getLineContent model 1 = Inr content"
  shows "up config model 1 col leftover count False
           = Inr \<lparr> lineNumber = 1, column = min (int (length content) + 1) col,
                   CursorPosition.leftoverVisibleColumns = leftover \<rparr>
       \<and> up config model 1 col leftover count True
           = Inr \<lparr> lineNumber = 1, column = getLineMinColumn model 1,
                   CursorPosition.leftoverVisibleColumns =
                     visibleColumnFromColumn content col (tabSize config) + leftover \<rparr>
       \<and> (\<not> isEnd cursor \<and> lineNumber (stepStart cursor inSelectionMode False) = 1 \<longrightarrow>
            (\<exists>cursor'. moveUp config model cursor inSelectionMode count = Inr cursor'
               \<and> position cursor' = \<lparr> lineNumber = 1, column = getLineMinColumn model 1 \<rparr>))
       \<and> (lineNumber (selectionStart cursor) = 1 \<and> lineNumber (position cursor) = 1 \<longrightarrow>
            (\<exists>cursor'. translateUp config model cursor = Inr cursor'
               \<and> selectionStart cursor'
                    = \<lparr> lineNumber = 1,
                        column = min (int (length content) + 1) (column (selectionStart cursor)) \<rparr>
               \<and> position cursor'
                    = \<lparr> lineNumber = 1,
                        column = min (int (length content) + 1) (column (position cursor)) \<rparr>))"
proof -
  from assms(1) have clamp: "1 - count < 1" by simp
  have off: "up config model 1 c lo count False
           = Inr \<lparr> lineNumber = 1, column = min (int (length content) + 1) c,
                   CursorPosition.leftoverVisibleColumns = lo \<rparr>" for c lo
    using up_clamped [OF assms(2) clamp assms(2), of config c lo False]
    by (simp add: visibleColumnFromColumn_min)
  have on: "up config model 1 c lo count True
           = Inr \<lparr> lineNumber = 1, column = getLineMinColumn model 1,
                   CursorPosition.leftoverVisibleColumns =
                     visibleColumnFromColumn content c (tabSize config) + lo \<rparr>" for c lo
    using up_clamped [OF assms(2) clamp assms(2), of config c lo True]
    by (simp add: visibleColumnFromColumn_first getLineMinColumn_def)
  have caret_style: "\<exists>cursor'. moveUp config model cursor inSelectionMode count = Inr cursor'
               \<and> position cursor' = \<lparr> lineNumber = 1, column = getLineMinColumn model 1 \<rparr>"
    if "\<not> isEnd cursor" and "lineNumber (stepStart cursor inSelectionMode False) = 1"
    using that
    by (cases "hasSelection cursor"; cases inSelectionMode)
       (simp_all add: moveUp_def stepStart_def Let_def andThen_Inr on move_def)
  have one: "up config model 1 c lo 1 False
           = Inr \<lparr> lineNumber = 1, column = min (int (length content) + 1) c,
                   CursorPosition.leftoverVisibleColumns = lo \<rparr>" for c lo
    using up_clamped [OF assms(2) _ assms(2), of 1 config c lo False]
    by (simp add: visibleColumnFromColumn_min)
  have translate_style: "\<exists>cursor'. translateUp config model cursor = Inr cursor'
               \<and> selectionStart cursor'
                    = \<lparr> lineNumber = 1,
                        column = min (int (length content) + 1) (column (selectionStart cursor)) \<rparr>
               \<and> position cursor'
                    = \<lparr> lineNumber = 1,
                        column = min (int (length content) + 1) (column (position cursor)) \<rparr>"
    if "lineNumber (selectionStart cursor) = 1" and "lineNumber (position cursor) = 1"
    using that
    by (simp add: translateUp_def selection_def Let_def andThen_Inr one)
  from off on caret_style translate_style show ?thesis by blast
qed

theorem up_from_first_line_witness:
  "(1::int) \<le> 5
   \<and> getLineContent [[97, 98, 99]] 1 = Inr [97, 98, 99]
   \<and> up \<lparr> tabSize = 4 \<rparr> [[97, 98, 99]] 1 7 0 5 False
       = Inr \<lparr> lineNumber = 1, column = 4, CursorPosition.leftoverVisibleColumns = 0 \<rparr>
   \<and> up \<lparr> tabSize = 4 \<rparr> [[97, 98, 99]] 1 7 0 5 True
       = Inr \<lparr> lineNumber = 1, column = 1, CursorPosition.leftoverVisibleColumns = 3 \<rparr>
   \<and> \<not> isEnd (caret 1 3 0 False)
   \<and> lineNumber (stepStart (caret 1 3 0 False) False False) = 1
   \<and> (\<exists>cursor'. moveUp \<lparr> tabSize = 4 \<rparr> [[97, 98, 99]] (caret 1 3 0 False) False 5 = Inr cursor'
         \<and> position cursor' = \<lparr> lineNumber = 1, column = 1 \<rparr>)
   \<and> lineNumber (selectionStart (caret 1 3 0 False)) = 1
   \<and> lineNumber (position (caret 1 3 0 False)) = 1
   \<and> (\<exists>cursor'. translateUp \<lparr> tabSize = 4 \<rparr> [[97, 98, 99]] (caret 1 3 0 False) = Inr cursor'
         \<and> selectionStart cursor' = \<lparr> lineNumber = 1, column = 3 \<rparr>
         \<and> position cursor' = \<lparr> lineNumber = 1, column = 3 \<rparr>)"
proof -
  have content: "getLineContent [[97, 98, 99]] 1 = Inr [97, 98, 99]"
    by (simp add: getLineContent_def getLineCount_def)
  have vis: "visibleColumnFromColumn [97, 98, 99] 7 4 = 3"
    by (simp add: visibleColumnFromColumn_def charWidth_def)
  from up_from_first_line [of 5 "[[97, 98, 99]]" "[97, 98, 99]" "\<lparr> tabSize = 4 \<rparr>" 7 0
         "caret 1 3 0 False" False] content vis
  show ?thesis
    by (simp add: caret_def stepStart_def hasSelection_def getLineMinColumn_def)
qed

section \<open>A plain horizontal move out of a selection\<close>

text \<open>
  C8.  When the cursor holds a selection, \<open>moveLeft\<close> without the selection-mode flag
  returns the bare caret at the start of the selection and \<open>moveRight\<close> the bare caret
  at its end, whatever \<open>noOfColumns\<close> is and whichever of the two ends floats; the
  buffer is not consulted.  Start and end are the anchor and the floating end in
  ascending order.
\<close>

theorem plain_horizontal_move_collapses_selection:
  assumes "hasSelection cursor"
  shows "moveLeft strings config model cursor False noOfColumns
           = Inr (caret (startLineNumber (selection cursor)) (startColumn (selection cursor))
                    0 False)
       \<and> moveRight strings config model cursor False noOfColumns
           = Inr (caret (endLineNumber (selection cursor)) (endColumn (selection cursor))
                    0 False)
       \<and> isBefore \<lparr> lineNumber = startLineNumber (selection cursor),
                     column = startColumn (selection cursor) \<rparr>
                   \<lparr> lineNumber = endLineNumber (selection cursor),
                     column = endColumn (selection cursor) \<rparr>
       \<and> ((\<lparr> lineNumber = startLineNumber (selection cursor),
               column = startColumn (selection cursor) \<rparr> = selectionStart cursor
            \<and> \<lparr> lineNumber = endLineNumber (selection cursor),
                 column = endColumn (selection cursor) \<rparr> = position cursor)
          \<or> (\<lparr> lineNumber = startLineNumber (selection cursor),
                 column = startColumn (selection cursor) \<rparr> = position cursor
            \<and> \<lparr> lineNumber = endLineNumber (selection cursor),
                 column = endColumn (selection cursor) \<rparr> = selectionStart cursor))"
proof -
  have l: "moveLeft strings config model cursor False noOfColumns
           = Inr (caret (startLineNumber (selection cursor)) (startColumn (selection cursor))
                    0 False)"
    using assms by (simp add: moveLeft_def move_def caret_def)
  have r: "moveRight strings config model cursor False noOfColumns
           = Inr (caret (endLineNumber (selection cursor)) (endColumn (selection cursor))
                    0 False)"
    using assms by (simp add: moveRight_def move_def caret_def)
  have ord: "isBefore \<lparr> lineNumber = startLineNumber (selection cursor),
                     column = startColumn (selection cursor) \<rparr>
                   \<lparr> lineNumber = endLineNumber (selection cursor),
                     column = endColumn (selection cursor) \<rparr>"
    using assms by (auto simp add: selection_def hasSelection_def isBefore_def Let_def)
  have ends: "(\<lparr> lineNumber = startLineNumber (selection cursor),
               column = startColumn (selection cursor) \<rparr> = selectionStart cursor
            \<and> \<lparr> lineNumber = endLineNumber (selection cursor),
                 column = endColumn (selection cursor) \<rparr> = position cursor)
          \<or> (\<lparr> lineNumber = startLineNumber (selection cursor),
                 column = startColumn (selection cursor) \<rparr> = position cursor
            \<and> \<lparr> lineNumber = endLineNumber (selection cursor),
                 column = endColumn (selection cursor) \<rparr> = selectionStart cursor)"
    by (simp add: selection_def Let_def)
  from l r ord ends show ?thesis by blast
qed

theorem plain_horizontal_move_collapses_selection_witness:
  "hasSelection \<lparr> selectionStart = \<lparr> lineNumber = 1, column = 5 \<rparr>,
                   selectionStartLeftoverVisibleColumns = 0,
                   position = \<lparr> lineNumber = 1, column = 1 \<rparr>,
                   leftoverVisibleColumns = 0, isEnd = False \<rparr>
   \<and> moveLeft surrogatePairs \<lparr> tabSize = 4 \<rparr> [[97, 98, 99, 100, 101]]
        \<lparr> selectionStart = \<lparr> lineNumber = 1, column = 5 \<rparr>,
          selectionStartLeftoverVisibleColumns = 0,
          position = \<lparr> lineNumber = 1, column = 1 \<rparr>,
          leftoverVisibleColumns = 0, isEnd = False \<rparr> False 3
       = Inr (caret 1 1 0 False)
   \<and> moveRight surrogatePairs \<lparr> tabSize = 4 \<rparr> [[97, 98, 99, 100, 101]]
        \<lparr> selectionStart = \<lparr> lineNumber = 1, column = 5 \<rparr>,
          selectionStartLeftoverVisibleColumns = 0,
          position = \<lparr> lineNumber = 1, column = 1 \<rparr>,
          leftoverVisibleColumns = 0, isEnd = False \<rparr> False 3
       = Inr (caret 1 5 0 False)"
  using plain_horizontal_move_collapses_selection
          [of "\<lparr> selectionStart = \<lparr> lineNumber = 1, column = 5 \<rparr>,
                 selectionStartLeftoverVisibleColumns = 0,
                 position = \<lparr> lineNumber = 1, column = 1 \<rparr>,
                 leftoverVisibleColumns = 0, isEnd = False \<rparr>"
              surrogatePairs "\<lparr> tabSize = 4 \<rparr>" "[[97, 98, 99, 100, 101]]" 3]
  by (simp add: hasSelection_def selection_def isBefore_def)

section \<open>Smart home\<close>

lemma firstNonWhitespaceIndex_takeWhile:
  "firstNonWhitespaceIndex cs i =
     (if list_all isWhitespace cs then None
      else Some (i + int (length (takeWhile isWhitespace cs))))"
  by (induction cs arbitrary: i) simp_all

lemma firstNonWhitespaceColumn_orElse:
  assumes "getLineContent model n = Inr content"
  shows "\<exists>fnw. getLineFirstNonWhitespaceColumn model n = Inr fnw
           \<and> orElse fnw (getLineMinColumn model n) = firstNonBlankColumn content"
  using assms
  by (simp add: getLineFirstNonWhitespaceColumn_def andThen_Inr firstNonWhitespaceIndex_takeWhile
        orElse_def firstNonBlankColumn_def getLineMinColumn_def)

lemma moveToBeginningOfLine_content:
  assumes "getLineContent model (lineNumber (position cursor)) = Inr content"
  shows "moveToBeginningOfLine config model cursor inSelectionMode
           = Inr (move cursor inSelectionMode (lineNumber (position cursor))
                    (if column (position cursor) = firstNonBlankColumn content
                     then getLineMinColumn model (lineNumber (position cursor))
                     else firstNonBlankColumn content) 0 False)"
proof -
  from firstNonWhitespaceColumn_orElse [OF assms] obtain fnw where
    "getLineFirstNonWhitespaceColumn model (lineNumber (position cursor)) = Inr fnw"
    "orElse fnw (getLineMinColumn model (lineNumber (position cursor)))
       = firstNonBlankColumn content"
    by blast
  then show ?thesis
    by (simp add: moveToBeginningOfLine_def Let_def andThen_Inr)
qed

lemma position_move:
  "position (move cursor inSelectionMode l c leftover sticky) = \<lparr> lineNumber = l, column = c \<rparr>"
  by (simp add: move_def)

lemma leftover_move:
  "SingleCursorState.leftoverVisibleColumns (move cursor inSelectionMode l c leftover sticky)
     = leftover"
  by (simp add: move_def)

lemma isEnd_move: "isEnd (move cursor inSelectionMode l c leftover sticky) = sticky"
  by (simp add: move_def)

text \<open>
  C9.  On a line of the buffer, \<open>moveToBeginningOfLine\<close> moves the floating end to the
  line's min column when its column is the first non-blank column of the line (the min
  column itself on a blank line), and to the first non-blank column otherwise, on the
  same line and with leftover 0.  Invoked again on its own result it gives the other
  one of the two columns, and a third invocation gives the first result's column again.
\<close>

theorem smart_home_toggle:
  assumes "getLineContent model (lineNumber (position cursor)) = Inr content"
  shows "\<exists>c1 c2 c3.
           moveToBeginningOfLine config model cursor inSelectionMode = Inr c1
         \<and> lineNumber (position c1) = lineNumber (position cursor)
         \<and> column (position c1)
             = (if column (position cursor) = firstNonBlankColumn content
                then getLineMinColumn model (lineNumber (position cursor))
                else firstNonBlankColumn content)
         \<and> SingleCursorState.leftoverVisibleColumns c1 = 0
         \<and> moveToBeginningOfLine config model c1 inSelectionMode = Inr c2
         \<and> column (position c2)
             = (if column (position cursor) = firstNonBlankColumn content
                then firstNonBlankColumn content
                else getLineMinColumn model (lineNumber (position cursor)))
         \<and> moveToBeginningOfLine config model c2 inSelectionMode = Inr c3
         \<and> column (position c3) = column (position c1)"
proof -
  let ?l = "lineNumber (position cursor)"
  let ?home = "\<lambda>c. if c = firstNonBlankColumn content then getLineMinColumn model ?l
                    else firstNonBlankColumn content"
  let ?c1 = "move cursor inSelectionMode ?l (?home (column (position cursor))) 0 False"
  let ?c2 = "move ?c1 inSelectionMode ?l (?home (column (position ?c1))) 0 False"
  let ?c3 = "move ?c2 inSelectionMode ?l (?home (column (position ?c2))) 0 False"
  have s1: "moveToBeginningOfLine config model cursor inSelectionMode = Inr ?c1"
    by (rule moveToBeginningOfLine_content [OF assms])
  have l1: "lineNumber (position ?c1) = ?l" by (simp add: position_move)
  have s2: "moveToBeginningOfLine config model ?c1 inSelectionMode = Inr ?c2"
    using moveToBeginningOfLine_content [of model ?c1 content config inSelectionMode] assms
    by (simp add: position_move)
  have s3: "moveToBeginningOfLine config model ?c2 inSelectionMode = Inr ?c3"
    using moveToBeginningOfLine_content [of model ?c2 content config inSelectionMode] assms
    by (simp add: position_move)
  have "lineNumber (position ?c1) = ?l
      \<and> column (position ?c1) = ?home (column (position cursor))
      \<and> SingleCursorState.leftoverVisibleColumns ?c1 = 0
      \<and> column (position ?c2)
             = (if column (position cursor) = firstNonBlankColumn content
                then firstNonBlankColumn content else getLineMinColumn model ?l)
      \<and> column (position ?c3) = column (position ?c1)"
    by (simp add: position_move leftover_move getLineMinColumn_def)
  with s1 s2 s3 show ?thesis by blast
qed

theorem smart_home_toggle_witness:
  "getLineContent [[32, 32, 32, 104, 101, 108, 108, 111]] (lineNumber (position (caret 1 9 0 False)))
     = Inr [32, 32, 32, 104, 101, 108, 108, 111]
   \<and> firstNonBlankColumn [32, 32, 32, 104, 101, 108, 108, 111] = 4
   \<and> (\<exists>c1 c2 c3.
         moveToBeginningOfLine \<lparr> tabSize = 4 \<rparr> [[32, 32, 32, 104, 101, 108, 108, 111]]
           (caret 1 9 0 False) False = Inr c1
       \<and> lineNumber (position c1) = 1
       \<and> column (position c1) = 4
       \<and> SingleCursorState.leftoverVisibleColumns c1 = 0
       \<and> moveToBeginningOfLine \<lparr> tabSize = 4 \<rparr> [[32, 32, 32, 104, 101, 108, 108, 111]]
           c1 False = Inr c2
       \<and> column (position c2) = 1
       \<and> moveToBeginningOfLine \<lparr> tabSize = 4 \<rparr> [[32, 32, 32, 104, 101, 108, 108, 111]]
           c2 False = Inr c3
       \<and> column (position c3) = 4)"
proof -
  have content: "getLineContent [[32, 32, 32, 104, 101, 108, 108, 111]]
                   (lineNumber (position (caret 1 9 0 False)))
                 = Inr [32, 32, 32, 104, 101, 108, 108, 111]"
    by (simp add: getLineContent_def getLineCount_def caret_def)
  have fnb: "firstNonBlankColumn [32, 32, 32, 104, 101, 108, 108, 111] = 4"
    by (simp add: firstNonBlankColumn_def isWhitespace_def)
  have pos: "lineNumber (position (caret 1 9 0 False)) = 1"
            "column (position (caret 1 9 0 False)) = 9"
    by (simp_all add: caret_def)
  from smart_home_toggle [OF content, of "\<lparr> tabSize = 4 \<rparr>" False]
  obtain c1 c2 c3 where
    r: "moveToBeginningOfLine \<lparr> tabSize = 4 \<rparr> [[32, 32, 32, 104, 101, 108, 108, 111]]
          (caret 1 9 0 False) False = Inr c1"
       "lineNumber (position c1) = 1"
       "column (position c1) = 4"
       "SingleCursorState.leftoverVisibleColumns c1 = 0"
       "moveToBeginningOfLine \<lparr> tabSize = 4 \<rparr> [[32, 32, 32, 104, 101, 108, 108, 111]]
          c1 False = Inr c2"
       "column (position c2) = 1"
       "moveToBeginningOfLine \<lparr> tabSize = 4 \<rparr> [[32, 32, 32, 104, 101, 108, 108, 111]]
          c2 False = Inr c3"
       "column (position c3) = column (position c1)"
    by (auto simp add: fnb pos getLineMinColumn_def)
  from r(8) r(3) have "column (position c3) = 4" by simp
  with r content fnb show ?thesis by blast
qed

section \<open>Sticky end of line across a vertical move\<close>

lemma getLineMaxColumn_InrD:
  "getLineMaxColumn m n = Inr maxColumn \<Longrightarrow>
   \<exists>s. getLineContent m n = Inr s \<and> maxColumn = int (length s) + 1"
  by (cases "getLineContent m n") (auto simp add: getLineMaxColumn_def andThen_def)

lemma getLineContent_total:
  "1 \<le> n \<Longrightarrow> n \<le> getLineCount m \<Longrightarrow> \<exists>s. getLineContent m n = Inr s"
  by (simp add: getLineContent_def)

lemma moveDown_sticky:
  assumes "isEnd cursor"
    and "getLineMaxColumn model (lineNumber (stepStart cursor inSelectionMode True) + 1)
           = Inr maxColumn"
    and "down config model (lineNumber (stepStart cursor inSelectionMode True)) maxColumn
           (SingleCursorState.leftoverVisibleColumns cursor) linesCount True = Inr r"
  shows "moveDown config model cursor inSelectionMode linesCount
           = Inr (move cursor inSelectionMode (lineNumber r) maxColumn
                    (CursorPosition.leftoverVisibleColumns r) True)"
  using assms
  by (cases "hasSelection cursor"; cases inSelectionMode)
     (simp_all add: moveDown_def stepStart_def Let_def andThen_Inr)

lemma moveUp_sticky:
  assumes "isEnd cursor"
    and "getLineMaxColumn model (lineNumber (stepStart cursor inSelectionMode False) - 1)
           = Inr maxColumn"
    and "up config model (lineNumber (stepStart cursor inSelectionMode False)) maxColumn
           (SingleCursorState.leftoverVisibleColumns cursor) linesCount True = Inr r"
  shows "moveUp config model cursor inSelectionMode linesCount
           = Inr (move cursor inSelectionMode (lineNumber r) maxColumn
                    (CursorPosition.leftoverVisibleColumns r) True)"
  using assms
  by (cases "hasSelection cursor"; cases inSelectionMode)
     (simp_all add: moveUp_def stepStart_def Let_def andThen_Inr)

text \<open>
  C1, as the code has it.  With the sticky-end flag set, a move by one line takes as its
  column the max column of the destination line: the line after the one \<open>moveDown\<close>
  starts from, the line before the one \<open>moveUp\<close> starts from (not the line the cursor
  occupies).  When that line is in the buffer, the returned floating end is on it, at
  its max column, and the flag remains set.
\<close>

theorem sticky_one_line_move_ends_at_destination_max_column:
  assumes "isEnd cursor"
  shows "(1 \<le> lineNumber (stepStart cursor inSelectionMode True)
          \<and> getLineMaxColumn model (lineNumber (stepStart cursor inSelectionMode True) + 1)
              = Inr maxColumn \<longrightarrow>
            (\<exists>cursor'. moveDown config model cursor inSelectionMode 1 = Inr cursor'
               \<and> position cursor'
                    = \<lparr> lineNumber = lineNumber (stepStart cursor inSelectionMode True) + 1,
                        column = maxColumn \<rparr>
               \<and> isEnd cursor'))
       \<and> (lineNumber (stepStart cursor inSelectionMode False) \<le> getLineCount model
          \<and> getLineMaxColumn model (lineNumber (stepStart cursor inSelectionMode False) - 1)
              = Inr maxColumn' \<longrightarrow>
            (\<exists>cursor'. moveUp config model cursor inSelectionMode 1 = Inr cursor'
               \<and> position cursor'
                    = \<lparr> lineNumber = lineNumber (stepStart cursor inSelectionMode False) - 1,
                        column = maxColumn' \<rparr>
               \<and> isEnd cursor'))"
proof (intro conjI impI)
  let ?l = "lineNumber (stepStart cursor inSelectionMode True)"
  assume h: "1 \<le> ?l \<and> getLineMaxColumn model (?l + 1) = Inr maxColumn"
  then obtain s' where s': "getLineContent model (?l + 1) = Inr s'"
    by (blast dest: getLineMaxColumn_InrD)
  from getLineContent_InrD [OF s'] have "?l \<le> getLineCount model" by simp
  with h obtain s where s: "getLineContent model ?l = Inr s"
    using getLineContent_total [of ?l model] by blast
  from down_unclamped [OF s s', of config maxColumn
         "SingleCursorState.leftoverVisibleColumns cursor" True]
  obtain r where r: "down config model ?l maxColumn
           (SingleCursorState.leftoverVisibleColumns cursor) 1 True = Inr r"
      "lineNumber r = ?l + 1"
    by simp
  from moveDown_sticky [OF assms _ r(1)] h r(2)
  show "\<exists>cursor'. moveDown config model cursor inSelectionMode 1 = Inr cursor'
               \<and> position cursor' = \<lparr> lineNumber = ?l + 1, column = maxColumn \<rparr>
               \<and> isEnd cursor'"
    by (simp add: position_move isEnd_move)
next
  let ?l = "lineNumber (stepStart cursor inSelectionMode False)"
  assume h: "?l \<le> getLineCount model \<and> getLineMaxColumn model (?l - 1) = Inr maxColumn'"
  then obtain s' where s': "getLineContent model (?l - 1) = Inr s'"
    by (blast dest: getLineMaxColumn_InrD)
  from getLineContent_InrD [OF s'] have "1 \<le> ?l" by simp
  with h obtain s where s: "getLineContent model ?l = Inr s"
    using getLineContent_total [of ?l model] by blast
  from up_unclamped [OF s s', of config maxColumn'
         "SingleCursorState.leftoverVisibleColumns cursor" True]
  obtain r where r: "up config model ?l maxColumn'
           (SingleCursorState.leftoverVisibleColumns cursor) 1 True = Inr r"
      "lineNumber r = ?l - 1"
    by simp
  from moveUp_sticky [OF assms _ r(1)] h r(2)
  show "\<exists>cursor'. moveUp config model cursor inSelectionMode 1 = Inr cursor'
               \<and> position cursor' = \<lparr> lineNumber = ?l - 1, column = maxColumn' \<rparr>
               \<and> isEnd cursor'"
    by (simp add: position_move isEnd_move)
qed

theorem sticky_one_line_move_ends_at_destination_max_column_witness:
  "isEnd (caret 1 4 0 True)
   \<and> 1 \<le> lineNumber (stepStart (caret 1 4 0 True) False True)
   \<and> getLineMaxColumn [[97, 98, 99], [97]] (lineNumber (stepStart (caret 1 4 0 True) False True) + 1)
       = Inr 2
   \<and> (\<exists>cursor'. moveDown \<lparr> tabSize = 4 \<rparr> [[97, 98, 99], [97]] (caret 1 4 0 True) False 1
                    = Inr cursor'
         \<and> position cursor' = \<lparr> lineNumber = 2, column = 2 \<rparr> \<and> isEnd cursor')
   \<and> isEnd (caret 2 2 0 True)
   \<and> lineNumber (stepStart (caret 2 2 0 True) False False) \<le> getLineCount [[97, 98, 99], [97]]
   \<and> getLineMaxColumn [[97, 98, 99], [97]] (lineNumber (stepStart (caret 2 2 0 True) False False) - 1)
       = Inr 4
   \<and> (\<exists>cursor'. moveUp \<lparr> tabSize = 4 \<rparr> [[97, 98, 99], [97]] (caret 2 2 0 True) False 1
                    = Inr cursor'
         \<and> position cursor' = \<lparr> lineNumber = 1, column = 4 \<rparr> \<and> isEnd cursor')"
proof -
  have a: "isEnd (caret 1 4 0 True)" "isEnd (caret 2 2 0 True)"
    by (simp_all add: caret_def)
  have l: "lineNumber (stepStart (caret 1 4 0 True) False True) = 1"
          "lineNumber (stepStart (caret 2 2 0 True) False False) = 2"
    by (simp_all add: caret_def stepStart_def hasSelection_def)
  have m: "getLineMaxColumn [[97, 98, 99], [97]] 2 = Inr 2"
          "getLineMaxColumn [[97, 98, 99], [97]] 1 = Inr 4"
          "getLineCount [[97, 98, 99], [97]] = 2"
    by (simp_all add: getLineMaxColumn_def getLineContent_def getLineCount_def andThen_def)
  from sticky_one_line_move_ends_at_destination_max_column
         [OF a(1), of False "[[97, 98, 99], [97]]" 2 "\<lparr> tabSize = 4 \<rparr>" 0]
       sticky_one_line_move_ends_at_destination_max_column
         [OF a(2), of False "[[97, 98, 99], [97]]" 0 "\<lparr> tabSize = 4 \<rparr>" 4]
       a l m
  show ?thesis by simp
qed

text \<open>
  C1 as stated fails.  Buffer \<open>abc\<close>, \<open>a\<close>: the sticky caret at (1, 4) moves down
  by one line to line 2, not clamped, and gets column 2, the max column of line 2; the
  line it occupied has max column 4.  Moved up again from (2, 2) it gets column 4, where
  the line it occupied has max column 2.
\<close>

theorem sticky_move_column_is_not_current_line_max_column:
  "isEnd (caret 1 4 0 True)
   \<and> getLineMaxColumn [[97, 98, 99], [97]] (lineNumber (position (caret 1 4 0 True))) = Inr 4
   \<and> moveDown \<lparr> tabSize = 4 \<rparr> [[97, 98, 99], [97]] (caret 1 4 0 True) False 1
       = Inr (caret 2 2 0 True)
   \<and> column (position (caret 2 2 0 True)) \<noteq> 4
   \<and> isEnd (caret 2 2 0 True)
   \<and> getLineMaxColumn [[97, 98, 99], [97]] (lineNumber (position (caret 2 2 0 True))) = Inr 2
   \<and> moveUp \<lparr> tabSize = 4 \<rparr> [[97, 98, 99], [97]] (caret 2 2 0 True) False 1
       = Inr (caret 1 4 0 True)"
  by (simp add: caret_def moveDown_def moveUp_def hasSelection_def Let_def andThen_def
        getLineMaxColumn_def getLineContent_def getLineCount_def getLineMinColumn_def
        down_def up_def columnFromVisibleColumn2_def columnFromVisibleColumn_def
        visibleColumnFromColumn_def charWidth_def move_def)

text \<open>
  C2 at a move by two lines.  Buffer \<open>a\<close>, \<open>abc\<close>, empty line; \<open>moveToEndOfLine\<close> on
  line 1 gives the sticky caret at (1, 2); \<open>moveDown\<close> by 2 from it lands on line 3
  without clamping, with the max column of line 2 as its column: column 4 on a line
  whose max column is 1.
\<close>

theorem sticky_moveDown_by_two_lines:
  "moveToEndOfLine \<lparr> tabSize = 4 \<rparr> [[97], [97, 98, 99], []] (caret 1 1 0 False) False
     = Inr (caret 1 2 0 True)
   \<and> moveDown \<lparr> tabSize = 4 \<rparr> [[97], [97, 98, 99], []] (caret 1 2 0 True) False 2
       = Inr (caret 3 4 1 True)
   \<and> getLineMaxColumn [[97], [97, 98, 99], []] 3 = Inr 1"
  by (simp add: caret_def moveToEndOfLine_def moveDown_def hasSelection_def Let_def andThen_def
        getLineMaxColumn_def getLineContent_def getLineCount_def getLineMinColumn_def
        down_def columnFromVisibleColumn2_def columnFromVisibleColumn_def
        visibleColumnFromColumn_def charWidth_def move_def)

section \<open>Characters of a line\<close>

lemma boundaryWalk_predecessor:
  assumes "x \<in> set (boundaryWalk f s n start)"
  shows "x = start
       \<or> (\<exists>y \<in> set (boundaryWalk f s n start). y < int (length s) \<and> x = y + f s y)"
  using assms
proof (induction n arbitrary: start)
  case 0
  then show ?case by simp
next
  case (Suc n)
  show ?case
  proof (cases "start < int (length s)")
    case False
    with Suc.prems show ?thesis by simp
  next
    case True
    with Suc.prems have "x = start \<or> x \<in> set (boundaryWalk f s n (start + f s start))"
      by simp
    then show ?thesis
    proof
      assume "x = start"
      then show ?thesis by simp
    next
      assume "x \<in> set (boundaryWalk f s n (start + f s start))"
      from Suc.IH [OF this] True show ?thesis by auto
    qed
  qed
qed

lemma atomicSteps_boundary:
  assumes "atomicSteps strings s" and "b \<in> set (characterBoundaries strings s)"
    and "b < int (length s)"
  shows "1 \<le> nextCharLength strings s b"
    and "b + nextCharLength strings s b \<le> int (length s)"
    and "prevCharLength strings s (b + nextCharLength strings s b) = nextCharLength strings s b"
  using assms by (auto simp add: atomicSteps_def list_all_iff)

text \<open>The character that ends at a boundary other than 0 starts at a boundary, and is that character.\<close>

lemma boundary_previous:
  assumes "atomicSteps strings s" and "b \<in> set (characterBoundaries strings s)" and "0 < b"
  shows "nextCharLength strings s (b - prevCharLength strings s b) = prevCharLength strings s b"
    and "1 \<le> prevCharLength strings s b"
    and "b - prevCharLength strings s b < int (length s)"
    and "b - prevCharLength strings s b \<in> set (characterBoundaries strings s)"
proof -
  from boundaryWalk_predecessor [OF assms(2) [unfolded characterBoundaries_def]] assms(3)
  obtain y where y: "y \<in> set (characterBoundaries strings s)" "y < int (length s)"
    "b = y + nextCharLength strings s y"
    by (auto simp add: characterBoundaries_def)
  from atomicSteps_boundary [OF assms(1) y(1) y(2)] y(3)
  have p: "prevCharLength strings s b = nextCharLength strings s y"
    and "1 \<le> nextCharLength strings s y"
    by simp_all
  with y show "nextCharLength strings s (b - prevCharLength strings s b) = prevCharLength strings s b"
    and "1 \<le> prevCharLength strings s b"
    and "b - prevCharLength strings s b < int (length s)"
    and "b - prevCharLength strings s b \<in> set (characterBoundaries strings s)"
    by simp_all
qed

lemma leftPosition_within_line:
  assumes "getLineContent model l = Inr content" and "1 < c"
  shows "leftPosition strings model l c
           = Inr \<lparr> lineNumber = l, column = c - prevCharLength strings content (c - 1) \<rparr>"
  using assms by (simp add: leftPosition_def getLineMinColumn_def andThen_Inr)

lemma rightPosition_within_line:
  assumes "getLineContent model l = Inr content" and "c < int (length content) + 1"
  shows "rightPosition strings model l c
           = Inr \<lparr> lineNumber = l, column = c + nextCharLength strings content (c - 1) \<rparr>"
  using assms by (simp add: rightPosition_def getLineMaxColumn_content andThen_Inr)

section \<open>Left after right, right after left\<close>

text \<open>
  C6, as the code has it.  Let the parameter step over whole characters on a line of the
  buffer (\<open>atomicSteps\<close>), and let \<open>(l, c)\<close> be a position on that line whose column
  is between the line's min and max column and does not split a character: the offset
  \<open>c - 1\<close> is a character boundary.  If the position is not the start of the buffer,
  the right step after the left step returns to it; if it is not the end of the buffer,
  the left step after the right step returns to it.
\<close>

theorem left_right_round_trip:
  assumes "atomicSteps strings content"
    and "getLineContent model l = Inr content"
    and "1 \<le> c" and "c \<le> int (length content) + 1"
    and "c - 1 \<in> set (characterBoundaries strings content)"
  shows "(\<not> (l = 1 \<and> c = 1) \<longrightarrow>
            andThen (leftPosition strings model l c)
              (\<lambda>p. rightPosition strings model (lineNumber p) (column p))
            = Inr \<lparr> lineNumber = l, column = c \<rparr>)
       \<and> (\<not> (l = getLineCount model \<and> c = int (length content) + 1) \<longrightarrow>
            andThen (rightPosition strings model l c)
              (\<lambda>p. leftPosition strings model (lineNumber p) (column p))
            = Inr \<lparr> lineNumber = l, column = c \<rparr>)"
proof (intro conjI impI)
  from getLineContent_InrD [OF assms(2)]
  have l: "1 \<le> l" "l \<le> getLineCount model" by simp_all
  assume "\<not> (l = 1 \<and> c = 1)"
  show "andThen (leftPosition strings model l c)
          (\<lambda>p. rightPosition strings model (lineNumber p) (column p))
          = Inr \<lparr> lineNumber = l, column = c \<rparr>"
  proof (cases "1 < c")
    case True
    let ?k = "prevCharLength strings content (c - 1)"
    from True have "0 < c - 1" by simp
    from boundary_previous [OF assms(1) assms(5) this]
    have k: "nextCharLength strings content (c - 1 - ?k) = ?k" "c - 1 - ?k < int (length content)"
      by simp_all
    from k(2) have "c - ?k < int (length content) + 1" by simp
    with assms(2) have "rightPosition strings model l (c - ?k)
        = Inr \<lparr> lineNumber = l, column = c - ?k + nextCharLength strings content (c - ?k - 1) \<rparr>"
      by (rule rightPosition_within_line)
    moreover have "c - ?k - 1 = c - 1 - ?k" by simp
    ultimately show ?thesis
      using k(1) leftPosition_within_line [OF assms(2) True, of strings]
      by (simp add: andThen_Inr)
  next
    case False
    with assms(3) \<open>\<not> (l = 1 \<and> c = 1)\<close> l have c: "c = 1" and prev: "1 < l" by auto
    with l obtain s where s: "getLineContent model (l - 1) = Inr s"
      using getLineContent_total [of "l - 1" model] by auto
    from c prev s have "leftPosition strings model l c
        = Inr \<lparr> lineNumber = l - 1, column = int (length s) + 1 \<rparr>"
      by (simp add: leftPosition_def getLineMinColumn_def getLineMaxColumn_content andThen_Inr)
    moreover from s l have "rightPosition strings model (l - 1) (int (length s) + 1)
        = Inr \<lparr> lineNumber = l, column = 1 \<rparr>"
      by (simp add: rightPosition_def getLineMinColumn_def getLineMaxColumn_content andThen_Inr)
    ultimately show ?thesis using c by (simp add: andThen_Inr)
  qed
next
  from getLineContent_InrD [OF assms(2)]
  have l: "1 \<le> l" "l \<le> getLineCount model" by simp_all
  assume notend: "\<not> (l = getLineCount model \<and> c = int (length content) + 1)"
  show "andThen (rightPosition strings model l c)
          (\<lambda>p. leftPosition strings model (lineNumber p) (column p))
          = Inr \<lparr> lineNumber = l, column = c \<rparr>"
  proof (cases "c < int (length content) + 1")
    case True
    let ?j = "nextCharLength strings content (c - 1)"
    from True have "c - 1 < int (length content)" by simp
    from atomicSteps_boundary [OF assms(1) assms(5) this]
    have j: "1 \<le> ?j" "prevCharLength strings content (c - 1 + ?j) = ?j" by simp_all
    from j(1) assms(3) have "1 < c + ?j" by simp
    with assms(2) have "leftPosition strings model l (c + ?j)
        = Inr \<lparr> lineNumber = l, column = c + ?j - prevCharLength strings content (c + ?j - 1) \<rparr>"
      by (rule leftPosition_within_line)
    moreover have "c + ?j - 1 = c - 1 + ?j" by simp
    ultimately show ?thesis
      using j(2) rightPosition_within_line [OF assms(2) True, of strings]
      by (simp add: andThen_Inr)
  next
    case False
    with assms(4) notend l have c: "c = int (length content) + 1" and nxt: "l < getLineCount model"
      by auto
    from c nxt assms(2) have "rightPosition strings model l c
        = Inr \<lparr> lineNumber = l + 1, column = 1 \<rparr>"
      by (simp add: rightPosition_def getLineMinColumn_def getLineMaxColumn_content andThen_Inr)
    moreover from assms(2) l have "leftPosition strings model (l + 1) 1
        = Inr \<lparr> lineNumber = l, column = int (length content) + 1 \<rparr>"
      by (simp add: leftPosition_def getLineMinColumn_def getLineMaxColumn_content andThen_Inr)
    ultimately show ?thesis using c by (simp add: andThen_Inr)
  qed
qed

theorem left_right_round_trip_witness:
  "atomicSteps surrogatePairs [97, 0xD83D, 0xDE00]
   \<and> getLineContent [[97, 0xD83D, 0xDE00], [98]] 1 = Inr [97, 0xD83D, 0xDE00]
   \<and> (1::int) \<le> 4
   \<and> 4 \<le> int (length [97, 0xD83D, 0xDE00 :: code_unit]) + 1
   \<and> 4 - 1 \<in> set (characterBoundaries surrogatePairs [97, 0xD83D, 0xDE00])
   \<and> \<not> (1 = (1::int) \<and> 4 = (1::int))
   \<and> andThen (leftPosition surrogatePairs [[97, 0xD83D, 0xDE00], [98]] 1 4)
        (\<lambda>p. rightPosition surrogatePairs [[97, 0xD83D, 0xDE00], [98]] (lineNumber p) (column p))
       = Inr \<lparr> lineNumber = 1, column = 4 \<rparr>
   \<and> \<not> (1 = getLineCount [[97, 0xD83D, 0xDE00], [98]]
         \<and> 4 = int (length [97, 0xD83D, 0xDE00 :: code_unit]) + 1)
   \<and> andThen (rightPosition surrogatePairs [[97, 0xD83D, 0xDE00], [98]] 1 4)
        (\<lambda>p. leftPosition surrogatePairs [[97, 0xD83D, 0xDE00], [98]] (lineNumber p) (column p))
       = Inr \<lparr> lineNumber = 1, column = 4 \<rparr>"
proof -
  note pairs = surrogatePairs_def surrogatePairNextCharLength_def
    surrogatePairPrevCharLength_def isHighSurrogate_def isLowSurrogate_def
  have boundaries: "characterBoundaries surrogatePairs [97, 0xD83D, 0xDE00] = [0, 1, 3]"
    by (simp add: characterBoundaries_def pairs)
  have whole: "atomicSteps surrogatePairs [97, 0xD83D, 0xDE00]"
    unfolding atomicSteps_def boundaries by (simp add: pairs)
  have content: "getLineContent [[97, 0xD83D, 0xDE00], [98]] 1 = Inr [97, 0xD83D, 0xDE00]"
    by (simp add: getLineContent_def getLineCount_def)
  have boundary: "4 - 1 \<in> set (characterBoundaries surrogatePairs [97, 0xD83D, 0xDE00])"
    unfolding boundaries by simp
  have cnt: "getLineCount [[97, 0xD83D, 0xDE00], [98]] = 2"
    by (simp add: getLineCount_def)
  from left_right_round_trip [OF whole content _ _ boundary] whole content boundary cnt
  show ?thesis by simp
qed

text \<open>
  C6 as stated fails.  A buffer of one line that holds one surrogate pair, with the
  surrogate pair as the one multi-code-unit character: the parameter steps over whole
  characters on the line, (1, 2) is between the line's min column 1 and max column 3,
  and neither the start nor the end of the buffer; it splits the pair.  The left step
  from it ends at (1, 1) and the right step from there at (1, 3); the right step from it
  ends at (1, 3) and the left step from there at (1, 1).
\<close>

theorem round_trip_fails_inside_surrogate_pair:
  "atomicSteps surrogatePairs [0xD83D, 0xDE00]
   \<and> getLineCount [[0xD83D, 0xDE00]] = 1
   \<and> getLineMaxColumn [[0xD83D, 0xDE00]] 1 = Inr 3
   \<and> insideCharacter surrogatePairs [0xD83D, 0xDE00] 2
   \<and> leftPosition surrogatePairs [[0xD83D, 0xDE00]] 1 2 = Inr \<lparr> lineNumber = 1, column = 1 \<rparr>
   \<and> rightPosition surrogatePairs [[0xD83D, 0xDE00]] 1 1 = Inr \<lparr> lineNumber = 1, column = 3 \<rparr>
   \<and> andThen (leftPosition surrogatePairs [[0xD83D, 0xDE00]] 1 2)
        (\<lambda>p. rightPosition surrogatePairs [[0xD83D, 0xDE00]] (lineNumber p) (column p))
       \<noteq> Inr \<lparr> lineNumber = 1, column = 2 \<rparr>
   \<and> andThen (rightPosition surrogatePairs [[0xD83D, 0xDE00]] 1 2)
        (\<lambda>p. leftPosition surrogatePairs [[0xD83D, 0xDE00]] (lineNumber p) (column p))
       \<noteq> Inr \<lparr> lineNumber = 1, column = 2 \<rparr>"
proof -
  note pairs = surrogatePairs_def surrogatePairNextCharLength_def
    surrogatePairPrevCharLength_def isHighSurrogate_def isLowSurrogate_def
  have boundaries: "characterBoundaries surrogatePairs [0xD83D, 0xDE00] = [0, 2]"
    by (simp add: characterBoundaries_def pairs)
  have whole: "atomicSteps surrogatePairs [0xD83D, 0xDE00]"
    unfolding atomicSteps_def boundaries by (simp add: pairs)
  have inside: "insideCharacter surrogatePairs [0xD83D, 0xDE00] 2"
    unfolding insideCharacter_def boundaries by simp
  have steps: "getLineCount [[0xD83D, 0xDE00]] = 1
   \<and> getLineMaxColumn [[0xD83D, 0xDE00]] 1 = Inr 3
   \<and> leftPosition surrogatePairs [[0xD83D, 0xDE00]] 1 2 = Inr \<lparr> lineNumber = 1, column = 1 \<rparr>
   \<and> rightPosition surrogatePairs [[0xD83D, 0xDE00]] 1 1 = Inr \<lparr> lineNumber = 1, column = 3 \<rparr>
   \<and> andThen (leftPosition surrogatePairs [[0xD83D, 0xDE00]] 1 2)
        (\<lambda>p. rightPosition surrogatePairs [[0xD83D, 0xDE00]] (lineNumber p) (column p))
       \<noteq> Inr \<lparr> lineNumber = 1, column = 2 \<rparr>
   \<and> andThen (rightPosition surrogatePairs [[0xD83D, 0xDE00]] 1 2)
        (\<lambda>p. leftPosition surrogatePairs [[0xD83D, 0xDE00]] (lineNumber p) (column p))
       \<noteq> Inr \<lparr> lineNumber = 1, column = 2 \<rparr>"
    by (simp add: leftPosition_def rightPosition_def andThen_def getLineMinColumn_def
          getLineMaxColumn_def getLineContent_def getLineCount_def pairs)
  from whole inside steps show ?thesis by blast
qed

section \<open>Horizontal movement by several columns\<close>

lemma andThen_return: "andThen r Inr = r"
  by (cases r) (simp_all add: andThen_def)

lemma list_all_upto: "list_all P [i..j] \<longleftrightarrow> (\<forall>k. i \<le> k \<and> k \<le> j \<longrightarrow> P k)"
  by (auto simp add: list_all_iff)

lemma moveLeft_as_step:
  assumes "\<not> hasSelection cursor \<or> inSelectionMode"
  shows "moveLeft strings config model cursor inSelectionMode noOfColumns
           = andThen (leftPosition strings model (lineNumber (position cursor))
                        (column (position cursor) - (noOfColumns - 1)))
               (\<lambda>p. Inr (move cursor inSelectionMode (lineNumber p) (column p) 0 False))"
  using assms
  by (cases "leftPosition strings model (lineNumber (position cursor))
               (column (position cursor) - (noOfColumns - 1))")
     (auto simp add: moveLeft_def left_def andThen_def)

lemma moveRight_as_step:
  assumes "\<not> hasSelection cursor \<or> inSelectionMode"
  shows "moveRight strings config model cursor inSelectionMode noOfColumns
           = andThen (rightPosition strings model (lineNumber (position cursor))
                        (column (position cursor) + (noOfColumns - 1)))
               (\<lambda>p. Inr (move cursor inSelectionMode (lineNumber p) (column p) 0 False))"
  using assms
  by (cases "rightPosition strings model (lineNumber (position cursor))
               (column (position cursor) + (noOfColumns - 1))")
     (auto simp add: moveRight_def right_def andThen_def)

text \<open>
  The step repeated: while the characters crossed are single code units of the line, the
  first \<open>k\<close> of \<open>k + 1\<close> steps shift the column by \<open>k\<close>.
\<close>

lemma leftPositionTimes_shift:
  assumes "getLineContent model (lineNumber p) = Inr content"
    and "list_all (\<lambda>offset. 1 \<le> offset \<and> prevCharLength strings content offset = 1)
           [column p - int k..column p - 1]"
  shows "leftPositionTimes strings (Suc k) model p
           = leftPosition strings model (lineNumber p) (column p - int k)"
  using assms
proof (induction k arbitrary: p)
  case 0
  have "leftPositionTimes strings 0 model = Inr" by (rule ext) simp
  then show ?case by (simp add: andThen_return)
next
  case (Suc k)
  let ?q = "\<lparr> lineNumber = lineNumber p, column = column p - 1 \<rparr>"
  from Suc.prems(2) have every:
    "\<And>offset. column p - int (Suc k) \<le> offset \<Longrightarrow> offset \<le> column p - 1 \<Longrightarrow>
       1 \<le> offset \<and> prevCharLength strings content offset = 1"
    by (simp only: list_all_upto)
  from every [of "column p - 1"] have here: "1 \<le> column p - 1"
      "prevCharLength strings content (column p - 1) = 1"
    by simp_all
  from every have rest:
    "list_all (\<lambda>offset. 1 \<le> offset \<and> prevCharLength strings content offset = 1)
           [column ?q - int k..column ?q - 1]"
    by (simp add: list_all_upto)
  from here have first: "leftPosition strings model (lineNumber p) (column p) = Inr ?q"
    using leftPosition_within_line [OF Suc.prems(1), of "column p" strings] by simp
  from Suc.prems(1) have "getLineContent model (lineNumber ?q) = Inr content" by simp
  from Suc.IH [OF this rest]
  have "leftPositionTimes strings (Suc k) model ?q
          = leftPosition strings model (lineNumber p) (column p - int (Suc k))"
    by (simp add: algebra_simps)
  with first show ?case by (simp add: andThen_Inr)
qed

lemma rightPositionTimes_shift:
  assumes "getLineContent model (lineNumber p) = Inr content"
    and "list_all (\<lambda>offset. offset < int (length content)
                       \<and> nextCharLength strings content offset = 1)
           [column p - 1..column p + int k - 2]"
  shows "rightPositionTimes strings (Suc k) model p
           = rightPosition strings model (lineNumber p) (column p + int k)"
  using assms
proof (induction k arbitrary: p)
  case 0
  have "rightPositionTimes strings 0 model = Inr" by (rule ext) simp
  then show ?case by (simp add: andThen_return)
next
  case (Suc k)
  let ?q = "\<lparr> lineNumber = lineNumber p, column = column p + 1 \<rparr>"
  from Suc.prems(2) have every:
    "\<And>offset. column p - 1 \<le> offset \<Longrightarrow> offset \<le> column p + int (Suc k) - 2 \<Longrightarrow>
       offset < int (length content) \<and> nextCharLength strings content offset = 1"
    by (simp only: list_all_upto)
  from every [of "column p - 1"] have here: "column p - 1 < int (length content)"
      "nextCharLength strings content (column p - 1) = 1"
    by simp_all
  from every have rest:
    "list_all (\<lambda>offset. offset < int (length content)
                       \<and> nextCharLength strings content offset = 1)
           [column ?q - 1..column ?q + int k - 2]"
    by (simp add: list_all_upto)
  from here have first: "rightPosition strings model (lineNumber p) (column p) = Inr ?q"
    using rightPosition_within_line [OF Suc.prems(1), of "column p" strings] by simp
  from Suc.prems(1) have "getLineContent model (lineNumber ?q) = Inr content" by simp
  from Suc.IH [OF this rest]
  have "rightPositionTimes strings (Suc k) model ?q
          = rightPosition strings model (lineNumber p) (column p + int (Suc k))"
    by (simp add: algebra_simps)
  with first show ?case by (simp add: andThen_Inr)
qed

text \<open>Where a step ends: never inside a character, when the parameter never ends inside one.\<close>

lemma leftPosition_total:
  assumes "getLineContent model l = Inr content"
  shows "\<exists>p. leftPosition strings model l c = Inr p"
proof (cases "1 < c")
  case True
  with leftPosition_within_line [OF assms True] show ?thesis by simp
next
  case False
  show ?thesis
  proof (cases "1 < l")
    case True
    with getLineContent_InrD [OF assms] obtain s where "getLineContent model (l - 1) = Inr s"
      using getLineContent_total [of "l - 1" model] by auto
    with False True show ?thesis
      by (simp add: leftPosition_def getLineMinColumn_def getLineMaxColumn_content andThen_Inr)
  next
    case False
    with \<open>\<not> 1 < c\<close> show ?thesis by (simp add: leftPosition_def getLineMinColumn_def)
  qed
qed

lemma rightPosition_total:
  assumes "getLineContent model l = Inr content"
  shows "\<exists>p. rightPosition strings model l c = Inr p"
  using assms by (simp add: rightPosition_def getLineMaxColumn_content andThen_Inr)

lemma leftPosition_not_inside:
  assumes "getLineContent model l = Inr content" and "stepsEndAtBoundaries strings content"
    and "c \<le> int (length content) + 1"
    and "leftPosition strings model l c = Inr p"
    and "getLineContent model (lineNumber p) = Inr content'"
  shows "\<not> insideCharacter strings content' (column p)"
proof (cases "1 < c")
  case True
  with leftPosition_within_line [OF assms(1) True, of strings] assms(4)
  have p: "lineNumber p = l" "column p = c - prevCharLength strings content (c - 1)" by auto
  with assms(1,5) have same: "content' = content" by simp
  from assms(2) True assms(3)
  have "c - 1 - prevCharLength strings content (c - 1) \<in> set (characterBoundaries strings content)"
    by (simp add: stepsEndAtBoundaries_def list_all_upto)
  moreover have "column p - 1 = c - 1 - prevCharLength strings content (c - 1)"
    using p(2) by simp
  ultimately have "column p - 1 \<in> set (characterBoundaries strings content)"
    by (simp only:)
  with same show ?thesis by (simp add: insideCharacter_def)
next
  case False
  show ?thesis
  proof (cases "1 < l")
    case True
    with getLineContent_InrD [OF assms(1)] obtain s where s: "getLineContent model (l - 1) = Inr s"
      using getLineContent_total [of "l - 1" model] by auto
    with False True assms(4) have "lineNumber p = l - 1" "column p = int (length s) + 1"
      by (auto simp add: leftPosition_def getLineMinColumn_def getLineMaxColumn_content
            andThen_Inr)
    with s assms(5) show ?thesis by (simp add: insideCharacter_def)
  next
    case False
    with \<open>\<not> 1 < c\<close> assms(4) have "column p = c"
      by (auto simp add: leftPosition_def getLineMinColumn_def)
    with \<open>\<not> 1 < c\<close> show ?thesis by (simp add: insideCharacter_def)
  qed
qed

lemma rightPosition_not_inside:
  assumes "getLineContent model l = Inr content" and "stepsEndAtBoundaries strings content"
    and "1 \<le> c"
    and "rightPosition strings model l c = Inr p"
    and "getLineContent model (lineNumber p) = Inr content'"
  shows "\<not> insideCharacter strings content' (column p)"
proof (cases "c < int (length content) + 1")
  case True
  with rightPosition_within_line [OF assms(1) True, of strings] assms(4)
  have p: "lineNumber p = l" "column p = c + nextCharLength strings content (c - 1)" by auto
  with assms(1,5) have same: "content' = content" by simp
  from assms(2) True assms(3)
  have "c - 1 + nextCharLength strings content (c - 1) \<in> set (characterBoundaries strings content)"
    by (simp add: stepsEndAtBoundaries_def list_all_upto)
  moreover have "column p - 1 = c - 1 + nextCharLength strings content (c - 1)"
    using p(2) by simp
  ultimately have "column p - 1 \<in> set (characterBoundaries strings content)"
    by (simp only:)
  with same show ?thesis by (simp add: insideCharacter_def)
next
  case False
  show ?thesis
  proof (cases "l < getLineCount model")
    case True
    with False assms(1,4) have "column p = 1"
      by (auto simp add: rightPosition_def getLineMinColumn_def getLineMaxColumn_content
            andThen_Inr)
    then show ?thesis by (simp add: insideCharacter_def)
  next
    case False
    with \<open>\<not> c < int (length content) + 1\<close> assms(1,4) have "lineNumber p = l" "column p = c"
      by (auto simp add: rightPosition_def getLineMaxColumn_content andThen_Inr)
    with assms(1,5) \<open>\<not> c < int (length content) + 1\<close> show ?thesis
      by (simp add: insideCharacter_def)
  qed
qed

text \<open>
  C4, as the code has it.  Take a cursor without a selection, or the selection mode, a
  floating end on a line of the buffer with its column between the line's min and max
  column, and \<open>noOfColumns \<ge> 1\<close>.  Then \<open>moveLeft\<close> (\<open>moveRight\<close>) returns a state
  with leftover 0, and its floating end never splits a character of the line it is on,
  given that the parameter never ends a character inside one on the line moved from
  (\<open>stepsEndAtBoundaries\<close>).  The result is the one-character step applied
  \<open>noOfColumns\<close> times whenever the first \<open>noOfColumns - 1\<close> of these steps each
  cross a character of one code unit inside the floating end's line; the code takes
  them as a shift of the column by \<open>noOfColumns - 1\<close> and steps once from there.
\<close>

theorem horizontal_move_by_columns:
  assumes "\<not> hasSelection cursor \<or> inSelectionMode" and "1 \<le> noOfColumns"
    and "getLineContent model (lineNumber (position cursor)) = Inr content"
    and "1 \<le> column (position cursor)"
    and "column (position cursor) \<le> int (length content) + 1"
  shows "(\<exists>cursor'. moveLeft strings config model cursor inSelectionMode noOfColumns = Inr cursor'
            \<and> SingleCursorState.leftoverVisibleColumns cursor' = 0
            \<and> (stepsEndAtBoundaries strings content \<longrightarrow>
                 (\<forall>content'. getLineContent model (lineNumber (position cursor')) = Inr content'
                    \<longrightarrow> \<not> insideCharacter strings content' (column (position cursor')))))
       \<and> (\<exists>cursor'. moveRight strings config model cursor inSelectionMode noOfColumns = Inr cursor'
            \<and> SingleCursorState.leftoverVisibleColumns cursor' = 0
            \<and> (stepsEndAtBoundaries strings content \<longrightarrow>
                 (\<forall>content'. getLineContent model (lineNumber (position cursor')) = Inr content'
                    \<longrightarrow> \<not> insideCharacter strings content' (column (position cursor')))))
       \<and> (list_all (\<lambda>offset. 1 \<le> offset \<and> prevCharLength strings content offset = 1)
            [column (position cursor) - noOfColumns + 1..column (position cursor) - 1] \<longrightarrow>
           moveLeft strings config model cursor inSelectionMode noOfColumns
             = andThen (leftPositionTimes strings (nat noOfColumns) model (position cursor))
                 (\<lambda>p. Inr (move cursor inSelectionMode (lineNumber p) (column p) 0 False)))
       \<and> (list_all (\<lambda>offset. offset < int (length content)
                        \<and> nextCharLength strings content offset = 1)
            [column (position cursor) - 1..column (position cursor) + noOfColumns - 3] \<longrightarrow>
           moveRight strings config model cursor inSelectionMode noOfColumns
             = andThen (rightPositionTimes strings (nat noOfColumns) model (position cursor))
                 (\<lambda>p. Inr (move cursor inSelectionMode (lineNumber p) (column p) 0 False)))"
proof -
  let ?l = "lineNumber (position cursor)" and ?c = "column (position cursor)"
  let ?k = "nat (noOfColumns - 1)"
  from assms(2) have n: "nat noOfColumns = Suc ?k" and k: "int ?k = noOfColumns - 1"
    by simp_all
  note ml = moveLeft_as_step [OF assms(1), of strings config model noOfColumns]
  note mr = moveRight_as_step [OF assms(1), of strings config model noOfColumns]
  have left_result: "\<exists>cursor'. moveLeft strings config model cursor inSelectionMode noOfColumns
              = Inr cursor'
            \<and> SingleCursorState.leftoverVisibleColumns cursor' = 0
            \<and> (stepsEndAtBoundaries strings content \<longrightarrow>
                 (\<forall>content'. getLineContent model (lineNumber (position cursor')) = Inr content'
                    \<longrightarrow> \<not> insideCharacter strings content' (column (position cursor'))))"
  proof -
    from leftPosition_total [OF assms(3), of strings "?c - (noOfColumns - 1)"]
    obtain p where p: "leftPosition strings model ?l (?c - (noOfColumns - 1)) = Inr p" by blast
    let ?r = "move cursor inSelectionMode (lineNumber p) (column p) 0 False"
    from ml p have "moveLeft strings config model cursor inSelectionMode noOfColumns = Inr ?r"
      by (simp add: andThen_Inr)
    moreover have "SingleCursorState.leftoverVisibleColumns ?r = 0"
      by (simp add: leftover_move)
    moreover have "\<not> insideCharacter strings content' (column (position ?r))"
      if "stepsEndAtBoundaries strings content"
        and "getLineContent model (lineNumber (position ?r)) = Inr content'" for content'
    proof -
      from assms(2,5) have "?c - (noOfColumns - 1) \<le> int (length content) + 1" by simp
      from leftPosition_not_inside [OF assms(3) that(1) this p] that(2)
      show ?thesis by (simp add: position_move)
    qed
    ultimately show ?thesis by blast
  qed
  have right_result: "\<exists>cursor'. moveRight strings config model cursor inSelectionMode noOfColumns
              = Inr cursor'
            \<and> SingleCursorState.leftoverVisibleColumns cursor' = 0
            \<and> (stepsEndAtBoundaries strings content \<longrightarrow>
                 (\<forall>content'. getLineContent model (lineNumber (position cursor')) = Inr content'
                    \<longrightarrow> \<not> insideCharacter strings content' (column (position cursor'))))"
  proof -
    from rightPosition_total [OF assms(3), of strings "?c + (noOfColumns - 1)"]
    obtain p where p: "rightPosition strings model ?l (?c + (noOfColumns - 1)) = Inr p" by blast
    let ?r = "move cursor inSelectionMode (lineNumber p) (column p) 0 False"
    from mr p have "moveRight strings config model cursor inSelectionMode noOfColumns = Inr ?r"
      by (simp add: andThen_Inr)
    moreover have "SingleCursorState.leftoverVisibleColumns ?r = 0"
      by (simp add: leftover_move)
    moreover have "\<not> insideCharacter strings content' (column (position ?r))"
      if "stepsEndAtBoundaries strings content"
        and "getLineContent model (lineNumber (position ?r)) = Inr content'" for content'
    proof -
      from assms(2,4) have "1 \<le> ?c + (noOfColumns - 1)" by simp
      from rightPosition_not_inside [OF assms(3) that(1) this p] that(2)
      show ?thesis by (simp add: position_move)
    qed
    ultimately show ?thesis by blast
  qed
  have left_times: "moveLeft strings config model cursor inSelectionMode noOfColumns
             = andThen (leftPositionTimes strings (nat noOfColumns) model (position cursor))
                 (\<lambda>p. Inr (move cursor inSelectionMode (lineNumber p) (column p) 0 False))"
    if "list_all (\<lambda>offset. 1 \<le> offset \<and> prevCharLength strings content offset = 1)
            [?c - noOfColumns + 1..?c - 1]"
  proof -
    have shifted: "?c - int ?k = ?c - noOfColumns + 1" using k by simp
    have "list_all (\<lambda>offset. 1 \<le> offset \<and> prevCharLength strings content offset = 1)
            [?c - int ?k..?c - 1]"
      unfolding shifted by (rule that)
    from leftPositionTimes_shift [OF assms(3) this] n k
    have "leftPositionTimes strings (nat noOfColumns) model (position cursor)
            = leftPosition strings model ?l (?c - (noOfColumns - 1))"
      by simp
    with ml show ?thesis by simp
  qed
  have right_times: "moveRight strings config model cursor inSelectionMode noOfColumns
             = andThen (rightPositionTimes strings (nat noOfColumns) model (position cursor))
                 (\<lambda>p. Inr (move cursor inSelectionMode (lineNumber p) (column p) 0 False))"
    if "list_all (\<lambda>offset. offset < int (length content)
                        \<and> nextCharLength strings content offset = 1)
            [?c - 1..?c + noOfColumns - 3]"
  proof -
    have shifted: "?c + int ?k - 2 = ?c + noOfColumns - 3" using k by simp
    have "list_all (\<lambda>offset. offset < int (length content)
                        \<and> nextCharLength strings content offset = 1)
            [?c - 1..?c + int ?k - 2]"
      unfolding shifted by (rule that)
    from rightPositionTimes_shift [OF assms(3) this] n k
    have "rightPositionTimes strings (nat noOfColumns) model (position cursor)
            = rightPosition strings model ?l (?c + (noOfColumns - 1))"
      by simp
    with mr show ?thesis by simp
  qed
  from left_result right_result left_times right_times show ?thesis by blast
qed

theorem horizontal_move_by_columns_witness:
  "\<not> hasSelection (caret 1 4 0 False)
   \<and> (1::int) \<le> 2
   \<and> getLineContent [[0xD83D, 0xDE00, 97, 98, 0xD83D, 0xDE00]]
        (lineNumber (position (caret 1 4 0 False)))
       = Inr [0xD83D, 0xDE00, 97, 98, 0xD83D, 0xDE00]
   \<and> 1 \<le> column (position (caret 1 4 0 False))
   \<and> column (position (caret 1 4 0 False))
       \<le> int (length [0xD83D, 0xDE00, 97, 98, 0xD83D, 0xDE00 :: code_unit]) + 1
   \<and> stepsEndAtBoundaries surrogatePairs [0xD83D, 0xDE00, 97, 98, 0xD83D, 0xDE00]
   \<and> moveLeft surrogatePairs \<lparr> tabSize = 4 \<rparr> [[0xD83D, 0xDE00, 97, 98, 0xD83D, 0xDE00]]
        (caret 1 4 0 False) False 2
       = Inr (caret 1 1 0 False)
   \<and> SingleCursorState.leftoverVisibleColumns (caret 1 1 0 False) = 0
   \<and> getLineContent [[0xD83D, 0xDE00, 97, 98, 0xD83D, 0xDE00]]
        (lineNumber (position (caret 1 1 0 False)))
       = Inr [0xD83D, 0xDE00, 97, 98, 0xD83D, 0xDE00]
   \<and> \<not> insideCharacter surrogatePairs [0xD83D, 0xDE00, 97, 98, 0xD83D, 0xDE00]
         (column (position (caret 1 1 0 False)))
   \<and> list_all (\<lambda>offset. 1 \<le> offset
         \<and> prevCharLength surrogatePairs [0xD83D, 0xDE00, 97, 98, 0xD83D, 0xDE00] offset = 1)
        [column (position (caret 1 4 0 False)) - 2 + 1..column (position (caret 1 4 0 False)) - 1]
   \<and> andThen (leftPositionTimes surrogatePairs (nat 2)
                 [[0xD83D, 0xDE00, 97, 98, 0xD83D, 0xDE00]] (position (caret 1 4 0 False)))
        (\<lambda>p. Inr (move (caret 1 4 0 False) False (lineNumber p) (column p) 0 False))
       = Inr (caret 1 1 0 False)
   \<and> moveRight surrogatePairs \<lparr> tabSize = 4 \<rparr> [[0xD83D, 0xDE00, 97, 98, 0xD83D, 0xDE00]]
        (caret 1 4 0 False) False 2
       = Inr (caret 1 7 0 False)
   \<and> SingleCursorState.leftoverVisibleColumns (caret 1 7 0 False) = 0
   \<and> getLineContent [[0xD83D, 0xDE00, 97, 98, 0xD83D, 0xDE00]]
        (lineNumber (position (caret 1 7 0 False)))
       = Inr [0xD83D, 0xDE00, 97, 98, 0xD83D, 0xDE00]
   \<and> \<not> insideCharacter surrogatePairs [0xD83D, 0xDE00, 97, 98, 0xD83D, 0xDE00]
         (column (position (caret 1 7 0 False)))
   \<and> list_all (\<lambda>offset. offset < int (length [0xD83D, 0xDE00, 97, 98, 0xD83D, 0xDE00 :: code_unit])
         \<and> nextCharLength surrogatePairs [0xD83D, 0xDE00, 97, 98, 0xD83D, 0xDE00] offset = 1)
        [column (position (caret 1 4 0 False)) - 1..column (position (caret 1 4 0 False)) + 2 - 3]
   \<and> andThen (rightPositionTimes surrogatePairs (nat 2)
                 [[0xD83D, 0xDE00, 97, 98, 0xD83D, 0xDE00]] (position (caret 1 4 0 False)))
        (\<lambda>p. Inr (move (caret 1 4 0 False) False (lineNumber p) (column p) 0 False))
       = Inr (caret 1 7 0 False)"
proof -
  let ?line = "[0xD83D, 0xDE00, 97, 98, 0xD83D, 0xDE00] :: jsstring"
  let ?m = "[?line] :: ICursorSimpleModel"
  let ?cfg = "\<lparr> tabSize = 4 \<rparr>"
  let ?cur = "caret 1 4 0 False"
  let ?collapse = "\<lambda>p. Inr (move ?cur False (lineNumber p) (column p) 0 False)
                       :: error + SingleCursorState"
  note pairs = surrogatePairs_def surrogatePairNextCharLength_def
    surrogatePairPrevCharLength_def isHighSurrogate_def isLowSurrogate_def
  note buffer = getLineContent_def getLineCount_def getLineMaxColumn_def getLineMinColumn_def
    andThen_def
  have bare: "\<not> hasSelection ?cur" by (simp add: hasSelection_def caret_def)
  then have sel: "\<not> hasSelection ?cur \<or> False" by simp
  have one: "(1::int) \<le> 2" by simp
  have pos: "lineNumber (position ?cur) = 1" "column (position ?cur) = 4"
    "lineNumber (position (caret 1 1 0 False)) = 1" "column (position (caret 1 1 0 False)) = 1"
    "lineNumber (position (caret 1 7 0 False)) = 1" "column (position (caret 1 7 0 False)) = 7"
    by (simp_all add: caret_def)
  have content: "getLineContent ?m 1 = Inr ?line" by (simp add: buffer)
  have at_cursor: "getLineContent ?m (lineNumber (position ?cur)) = Inr ?line"
    by (simp add: pos buffer)
  have boundaries: "characterBoundaries surrogatePairs ?line = [0, 2, 3, 4, 6]"
    by (simp add: characterBoundaries_def pairs)
  have ends: "stepsEndAtBoundaries surrogatePairs ?line"
    unfolding stepsEndAtBoundaries_def boundaries by (simp add: upto.simps pairs)
  have valid: "1 \<le> column (position ?cur)"
    "column (position ?cur) \<le> int (length ?line) + 1"
    by (simp_all add: pos)
  have single_before: "list_all (\<lambda>offset. 1 \<le> offset
         \<and> prevCharLength surrogatePairs ?line offset = 1)
        [column (position ?cur) - 2 + 1..column (position ?cur) - 1]"
    by (simp add: pos upto.simps pairs)
  have single_after: "list_all (\<lambda>offset. offset < int (length ?line)
         \<and> nextCharLength surrogatePairs ?line offset = 1)
        [column (position ?cur) - 1..column (position ?cur) + 2 - 3]"
    by (simp add: pos upto.simps pairs)
  have el: "moveLeft surrogatePairs ?cfg ?m ?cur False 2 = Inr (caret 1 1 0 False)"
    by (simp add: moveLeft_def left_def leftPosition_def hasSelection_def caret_def move_def
          buffer pairs)
  have er: "moveRight surrogatePairs ?cfg ?m ?cur False 2 = Inr (caret 1 7 0 False)"
    by (simp add: moveRight_def right_def rightPosition_def hasSelection_def caret_def move_def
          buffer pairs)
  note th = horizontal_move_by_columns [OF sel one at_cursor valid,
              of surrogatePairs ?cfg]
  from th ends obtain l' where
    "moveLeft surrogatePairs ?cfg ?m ?cur False 2 = Inr l'"
    "SingleCursorState.leftoverVisibleColumns l' = 0"
    "\<forall>content'. getLineContent ?m (lineNumber (position l')) = Inr content'
        \<longrightarrow> \<not> insideCharacter surrogatePairs content' (column (position l'))"
    by blast
  with el content have left_result:
    "SingleCursorState.leftoverVisibleColumns (caret 1 1 0 False) = 0"
    "\<not> insideCharacter surrogatePairs ?line (column (position (caret 1 1 0 False)))"
    by (simp_all add: pos)
  from th ends obtain r' where
    "moveRight surrogatePairs ?cfg ?m ?cur False 2 = Inr r'"
    "SingleCursorState.leftoverVisibleColumns r' = 0"
    "\<forall>content'. getLineContent ?m (lineNumber (position r')) = Inr content'
        \<longrightarrow> \<not> insideCharacter surrogatePairs content' (column (position r'))"
    by blast
  with er content have right_result:
    "SingleCursorState.leftoverVisibleColumns (caret 1 7 0 False) = 0"
    "\<not> insideCharacter surrogatePairs ?line (column (position (caret 1 7 0 False)))"
    by (simp_all add: pos)
  from th single_before
  have "moveLeft surrogatePairs ?cfg ?m ?cur False 2
          = andThen (leftPositionTimes surrogatePairs (nat 2) ?m (position ?cur)) ?collapse"
    by blast
  with el have left_times:
    "andThen (leftPositionTimes surrogatePairs (nat 2) ?m (position ?cur)) ?collapse
       = Inr (caret 1 1 0 False)"
    by simp
  from th single_after
  have "moveRight surrogatePairs ?cfg ?m ?cur False 2
          = andThen (rightPositionTimes surrogatePairs (nat 2) ?m (position ?cur)) ?collapse"
    by blast
  with er have right_times:
    "andThen (rightPositionTimes surrogatePairs (nat 2) ?m (position ?cur)) ?collapse
       = Inr (caret 1 7 0 False)"
    by simp
  from bare one content valid ends el er left_result right_result single_before single_after
    left_times right_times
  show ?thesis by (simp add: pos)
qed

text \<open>
  C4 as stated fails, with the surrogate pair as the one multi-code-unit character.
  Buffer \<open>a\<close>, \<open>b\<close>: \<open>moveLeft\<close> by 2 from (2, 1) ends at (1, 2), two left steps end
  at (1, 1).  Buffer \<open>ab\<close>: \<open>moveRight\<close> by 2 from (1, 3) ends at (1, 4), past the max
  column 3, two right steps stay at (1, 3).  A line \<open>a\<close> followed by one surrogate
  pair: \<open>moveLeft\<close> by 2 from the end (1, 4) ends at (1, 2), two left steps end at
  (1, 1).
\<close>

theorem horizontal_move_by_columns_is_not_repeated_step:
  "\<not> hasSelection (caret 2 1 0 False)
   \<and> moveLeft surrogatePairs \<lparr> tabSize = 4 \<rparr> [[97], [98]] (caret 2 1 0 False) False 2
       = Inr (caret 1 2 0 False)
   \<and> leftPositionTimes surrogatePairs (Suc (Suc 0)) [[97], [98]] \<lparr> lineNumber = 2, column = 1 \<rparr>
       = Inr \<lparr> lineNumber = 1, column = 1 \<rparr>
   \<and> moveRight surrogatePairs \<lparr> tabSize = 4 \<rparr> [[97, 98]] (caret 1 3 0 False) False 2
       = Inr (caret 1 4 0 False)
   \<and> rightPositionTimes surrogatePairs (Suc (Suc 0)) [[97, 98]] \<lparr> lineNumber = 1, column = 3 \<rparr>
       = Inr \<lparr> lineNumber = 1, column = 3 \<rparr>
   \<and> moveLeft surrogatePairs \<lparr> tabSize = 4 \<rparr> [[97, 0xD83D, 0xDE00]] (caret 1 4 0 False) False 2
       = Inr (caret 1 2 0 False)
   \<and> leftPositionTimes surrogatePairs (Suc (Suc 0)) [[97, 0xD83D, 0xDE00]]
        \<lparr> lineNumber = 1, column = 4 \<rparr>
       = Inr \<lparr> lineNumber = 1, column = 1 \<rparr>"
  by (simp add: caret_def hasSelection_def moveLeft_def moveRight_def left_def right_def
        leftPosition_def rightPosition_def andThen_def getLineMinColumn_def getLineMaxColumn_def
        getLineContent_def getLineCount_def surrogatePairs_def surrogatePairPrevCharLength_def
        surrogatePairNextCharLength_def isHighSurrogate_def isLowSurrogate_def move_def)

section \<open>The coordinate translator\<close>

lemma charWidth_increases: "1 \<le> ts \<Longrightarrow> b < charWidth c ts b"
proof -
  assume "1 \<le> ts"
  then have "b mod ts < ts" by simp
  then show ?thesis by (simp add: charWidth_def nextTabStop_def)
qed

lemma visibleWalk_mono: "1 \<le> ts \<Longrightarrow> b \<le> visibleWalk cs ts b"
proof (induction cs arbitrary: b)
  case Nil
  show ?case by simp
next
  case (Cons c cs)
  from Cons.IH [OF Cons.prems, of "charWidth c ts b"] charWidth_increases [OF Cons.prems, of b c]
  show ?case by simp
qed


lemma visibleColumnFromColumn_nonneg: "1 \<le> ts \<Longrightarrow> 0 \<le> visibleColumnFromColumn s c ts"
  by (simp add: visibleColumnFromColumn_def visibleWalk_mono)

text \<open>The column walk rounds down: the column it returns has a visible column of at most the target.\<close>

lemma columnWalk_rounds_down:
  assumes "1 \<le> ts" and "b \<le> v"
  shows "visibleWalk (take (nat (columnWalk cs v ts i b - 1 - i)) cs) ts b \<le> v"
  using assms(2)
proof (induction cs arbitrary: i b)
  case Nil
  then show ?case by simp
next
  case (Cons c cs)
  let ?a = "charWidth c ts b"
  show ?case
  proof (cases "v \<le> ?a")
    case True
    with Cons.prems show ?thesis by (simp add: Let_def)
  next
    case False
    then have a: "?a \<le> v" by simp
    from columnWalk_bounds [of "i + 1" cs v ts ?a]
    have "nat (columnWalk cs v ts (i + 1) ?a - 1 - i)
            = Suc (nat (columnWalk cs v ts (i + 1) ?a - 1 - (i + 1)))"
      by linarith
    with Cons.IH [OF a, of "i + 1"] False show ?thesis by (simp add: Let_def)
  qed
qed


lemma visibleColumn_of_columnFromVisibleColumn_le:
  assumes "1 \<le> ts" and "0 \<le> v"
  shows "visibleColumnFromColumn s (columnFromVisibleColumn s v ts) ts \<le> v"
  using columnWalk_rounds_down [OF assms, of s 0]
  by (simp add: visibleColumnFromColumn_def columnFromVisibleColumn_def)


section \<open>The leftover of a vertical step\<close>

lemma andThen_InrD: "andThen r f = Inr y \<Longrightarrow> \<exists>x. r = Inr x \<and> f x = Inr y"
  by (cases r) (simp_all add: andThen_def)

lemma down_InrD:
  assumes "down cfg m l c lo count allow = Inr r"
  shows "\<exists>s. getLineContent m l = Inr s"
  using assms by (auto simp add: down_def dest: andThen_InrD)

lemma up_InrD:
  assumes "up cfg m l c lo count allow = Inr r"
  shows "\<exists>s. getLineContent m l = Inr s"
  using assms by (auto simp add: up_def dest: andThen_InrD)

lemma down_unclamped_InrD:
  assumes "down cfg m l c lo count allow = Inr r" and "l + count \<le> getLineCount m"
  shows "\<exists>s'. getLineContent m (l + count) = Inr s'"
proof -
  from assms obtain s p where "getLineContent m l = Inr s"
    and "columnFromVisibleColumn2 cfg m (l + count)
           (visibleColumnFromColumn s c (tabSize cfg) + lo) = Inr p"
    by (auto simp add: down_def Let_def dest!: andThen_InrD)
  then show ?thesis
    by (auto simp add: columnFromVisibleColumn2_def dest!: andThen_InrD)
qed

lemma up_unclamped_InrD:
  assumes "up cfg m l c lo count allow = Inr r" and "1 \<le> l - count"
  shows "\<exists>s'. getLineContent m (l - count) = Inr s'"
proof -
  from assms obtain s p where "getLineContent m l = Inr s"
    and "columnFromVisibleColumn2 cfg m (l - count)
           (visibleColumnFromColumn s c (tabSize cfg) + lo) = Inr p"
    by (auto simp add: up_def Let_def dest!: andThen_InrD)
  then show ?thesis
    by (auto simp add: columnFromVisibleColumn2_def dest!: andThen_InrD)
qed

lemma down_leftover_nonneg:
  assumes "1 \<le> tabSize cfg" and "0 \<le> lo"
    and "down cfg m l c lo count allow = Inr r" and "l + count \<le> getLineCount m"
  shows "0 \<le> CursorPosition.leftoverVisibleColumns r"
proof -
  from down_InrD [OF assms(3)] obtain s where s: "getLineContent m l = Inr s" by blast
  from down_unclamped_InrD [OF assms(3,4)] obtain s' where
    s': "getLineContent m (l + count) = Inr s'" by blast
  let ?v = "visibleColumnFromColumn s c (tabSize cfg) + lo"
  from visibleColumnFromColumn_nonneg [OF assms(1), of s c] assms(2) have "0 \<le> ?v" by simp
  from visibleColumn_of_columnFromVisibleColumn_le [OF assms(1) this, of s']
    down_unclamped [OF s s', of cfg c lo allow] assms(3)
  show ?thesis by auto
qed

lemma up_leftover_nonneg:
  assumes "1 \<le> tabSize cfg" and "0 \<le> lo"
    and "up cfg m l c lo count allow = Inr r" and "1 \<le> l - count \<or> allow"
  shows "0 \<le> CursorPosition.leftoverVisibleColumns r"
proof -
  from up_InrD [OF assms(3)] obtain s where s: "getLineContent m l = Inr s" by blast
  let ?v = "visibleColumnFromColumn s c (tabSize cfg) + lo"
  from visibleColumnFromColumn_nonneg [OF assms(1), of s c] assms(2) have v: "0 \<le> ?v" by simp
  show ?thesis
  proof (cases "1 \<le> l - count")
    case True
    from up_unclamped_InrD [OF assms(3) True] obtain s' where
      s': "getLineContent m (l - count) = Inr s'" by blast
    from visibleColumn_of_columnFromVisibleColumn_le [OF assms(1) v, of s']
      up_unclamped [OF s s', of cfg c lo allow] assms(3)
    show ?thesis by auto
  next
    case False
    with assms(4) have allow: allow and clamp: "l - count < 1" by auto
    from getLineContent_InrD [OF s] have "1 \<le> getLineCount m" by simp
    then obtain s' where s': "getLineContent m 1 = Inr s'"
      using getLineContent_total [of 1 m] by auto
    from up_clamped [OF s clamp s', of cfg c lo allow] allow assms(3) v
    show ?thesis by (auto simp add: visibleColumnFromColumn_first)
  qed
qed

text \<open>
  The steps of \<open>translateDown\<close> and \<open>translateUp\<close>: by one line, boundary flag off.
  Clamped, such a step stays on its line and keeps the leftover it was given.
\<close>

lemma down_one_line_leftover_nonneg:
  assumes "1 \<le> tabSize cfg" and "0 \<le> lo" and "down cfg m l c lo 1 False = Inr r"
  shows "0 \<le> CursorPosition.leftoverVisibleColumns r"
proof (cases "l + 1 \<le> getLineCount m")
  case True
  from down_leftover_nonneg [OF assms True] show ?thesis .
next
  case False
  from down_InrD [OF assms(3)] obtain s where s: "getLineContent m l = Inr s" by blast
  with False getLineContent_InrD [OF s] have last: "getLineCount m = l" by simp
  from False have clamp: "l + 1 > getLineCount m" by simp
  from s last have s': "getLineContent m (getLineCount m) = Inr s" by simp
  from down_clamped [OF s clamp s', of cfg c lo False] assms(2,3)
  show ?thesis by (auto simp add: visibleColumnFromColumn_min)
qed

lemma up_one_line_leftover_nonneg:
  assumes "1 \<le> tabSize cfg" and "0 \<le> lo" and "up cfg m l c lo 1 False = Inr r"
  shows "0 \<le> CursorPosition.leftoverVisibleColumns r"
proof (cases "1 \<le> l - 1")
  case True
  then have "1 \<le> l - 1 \<or> False" by simp
  from up_leftover_nonneg [OF assms this] show ?thesis .
next
  case False
  from up_InrD [OF assms(3)] obtain s where s: "getLineContent m l = Inr s" by blast
  with False getLineContent_InrD [OF s] have first: "l = 1" by simp
  from False have clamp: "l - 1 < 1" by simp
  from s first have s': "getLineContent m 1 = Inr s" by simp
  from up_clamped [OF s clamp s', of cfg c lo False] assms(2,3)
  show ?thesis by (auto simp add: visibleColumnFromColumn_min)
qed

lemma leftoversNonNegative_move:
  "leftoversNonNegative cursor \<Longrightarrow> 0 \<le> lo \<Longrightarrow>
   leftoversNonNegative (move cursor inSelectionMode l c lo sticky)"
  by (simp add: leftoversNonNegative_def move_def)

lemma moveDown_stepStart:
  "moveDown config model cursor inSelectionMode linesCount =
     andThen (if isEnd cursor
              then getLineMaxColumn model (lineNumber (stepStart cursor inSelectionMode True) + 1)
              else Inr (column (stepStart cursor inSelectionMode True)))
       (\<lambda>c. andThen (down config model (lineNumber (stepStart cursor inSelectionMode True)) c
                        (SingleCursorState.leftoverVisibleColumns cursor) linesCount True)
              (\<lambda>r. Inr (move cursor inSelectionMode (lineNumber r)
                           (if isEnd cursor then c else column r)
                           (CursorPosition.leftoverVisibleColumns r) (isEnd cursor))))"
  by (cases "hasSelection cursor"; cases inSelectionMode)
     (simp_all add: moveDown_def stepStart_def Let_def)

lemma moveUp_stepStart:
  "moveUp config model cursor inSelectionMode linesCount =
     andThen (if isEnd cursor
              then getLineMaxColumn model (lineNumber (stepStart cursor inSelectionMode False) - 1)
              else Inr (column (stepStart cursor inSelectionMode False)))
       (\<lambda>c. andThen (up config model (lineNumber (stepStart cursor inSelectionMode False)) c
                        (SingleCursorState.leftoverVisibleColumns cursor) linesCount True)
              (\<lambda>r. Inr (move cursor inSelectionMode (lineNumber r)
                           (if isEnd cursor then c else column r)
                           (CursorPosition.leftoverVisibleColumns r) (isEnd cursor))))"
  by (cases "hasSelection cursor"; cases inSelectionMode)
     (simp_all add: moveUp_def stepStart_def Let_def)

lemma moveDown_InrD:
  assumes "moveDown config model cursor inSelectionMode linesCount = Inr cursor'"
  shows "\<exists>c r. down config model (lineNumber (stepStart cursor inSelectionMode True)) c
                 (SingleCursorState.leftoverVisibleColumns cursor) linesCount True = Inr r
             \<and> cursor' = move cursor inSelectionMode (lineNumber r)
                            (if isEnd cursor then c else column r)
                            (CursorPosition.leftoverVisibleColumns r) (isEnd cursor)"
proof -
  from assms [unfolded moveDown_stepStart] obtain c where
    "andThen (down config model (lineNumber (stepStart cursor inSelectionMode True)) c
                (SingleCursorState.leftoverVisibleColumns cursor) linesCount True)
       (\<lambda>r. Inr (move cursor inSelectionMode (lineNumber r)
                    (if isEnd cursor then c else column r)
                    (CursorPosition.leftoverVisibleColumns r) (isEnd cursor))) = Inr cursor'"
    by (blast dest: andThen_InrD)
  from andThen_InrD [OF this] obtain r where
    r: "down config model (lineNumber (stepStart cursor inSelectionMode True)) c
          (SingleCursorState.leftoverVisibleColumns cursor) linesCount True = Inr r"
    and "Inr (move cursor inSelectionMode (lineNumber r)
               (if isEnd cursor then c else column r)
               (CursorPosition.leftoverVisibleColumns r) (isEnd cursor))
         = (Inr cursor' :: error + SingleCursorState)"
    by blast
  then have "cursor' = move cursor inSelectionMode (lineNumber r)
                            (if isEnd cursor then c else column r)
                            (CursorPosition.leftoverVisibleColumns r) (isEnd cursor)"
    by simp
  with r show ?thesis by blast
qed

lemma moveUp_InrD:
  assumes "moveUp config model cursor inSelectionMode linesCount = Inr cursor'"
  shows "\<exists>c r. up config model (lineNumber (stepStart cursor inSelectionMode False)) c
                 (SingleCursorState.leftoverVisibleColumns cursor) linesCount True = Inr r
             \<and> cursor' = move cursor inSelectionMode (lineNumber r)
                            (if isEnd cursor then c else column r)
                            (CursorPosition.leftoverVisibleColumns r) (isEnd cursor)"
proof -
  from assms [unfolded moveUp_stepStart] obtain c where
    "andThen (up config model (lineNumber (stepStart cursor inSelectionMode False)) c
                (SingleCursorState.leftoverVisibleColumns cursor) linesCount True)
       (\<lambda>r. Inr (move cursor inSelectionMode (lineNumber r)
                    (if isEnd cursor then c else column r)
                    (CursorPosition.leftoverVisibleColumns r) (isEnd cursor))) = Inr cursor'"
    by (blast dest: andThen_InrD)
  from andThen_InrD [OF this] obtain r where
    r: "up config model (lineNumber (stepStart cursor inSelectionMode False)) c
          (SingleCursorState.leftoverVisibleColumns cursor) linesCount True = Inr r"
    and "Inr (move cursor inSelectionMode (lineNumber r)
               (if isEnd cursor then c else column r)
               (CursorPosition.leftoverVisibleColumns r) (isEnd cursor))
         = (Inr cursor' :: error + SingleCursorState)"
    by blast
  then have "cursor' = move cursor inSelectionMode (lineNumber r)
                            (if isEnd cursor then c else column r)
                            (CursorPosition.leftoverVisibleColumns r) (isEnd cursor)"
    by simp
  with r show ?thesis by blast
qed

lemma translateDown_InrD:
  assumes "translateDown config model cursor = Inr cursor'"
  shows "\<exists>a p. down config model (lineNumber (selectionStart cursor))
                 (column (selectionStart cursor))
                 (selectionStartLeftoverVisibleColumns cursor) 1 False = Inr a
             \<and> down config model (lineNumber (position cursor)) (column (position cursor))
                 (SingleCursorState.leftoverVisibleColumns cursor) 1 False = Inr p
             \<and> selectionStartLeftoverVisibleColumns cursor'
                 = CursorPosition.leftoverVisibleColumns a
             \<and> SingleCursorState.leftoverVisibleColumns cursor'
                 = CursorPosition.leftoverVisibleColumns p"
  using assms
  by (auto simp add: translateDown_def selection_def Let_def dest!: andThen_InrD)

lemma translateUp_InrD:
  assumes "translateUp config model cursor = Inr cursor'"
  shows "\<exists>a p. up config model (lineNumber (selectionStart cursor))
                 (column (selectionStart cursor))
                 (selectionStartLeftoverVisibleColumns cursor) 1 False = Inr a
             \<and> up config model (lineNumber (position cursor)) (column (position cursor))
                 (SingleCursorState.leftoverVisibleColumns cursor) 1 False = Inr p
             \<and> selectionStartLeftoverVisibleColumns cursor'
                 = CursorPosition.leftoverVisibleColumns a
             \<and> SingleCursorState.leftoverVisibleColumns cursor'
                 = CursorPosition.leftoverVisibleColumns p"
  using assms
  by (auto simp add: translateUp_def selection_def Let_def dest!: andThen_InrD)

lemma moveLeft_InrD:
  "moveLeft strings config model cursor inSelectionMode n = Inr cursor' \<Longrightarrow>
   \<exists>l c. cursor' = move cursor inSelectionMode l c 0 False"
  by (auto simp add: moveLeft_def split: if_splits dest!: andThen_InrD)

lemma moveRight_InrD:
  "moveRight strings config model cursor inSelectionMode n = Inr cursor' \<Longrightarrow>
   \<exists>l c. cursor' = move cursor inSelectionMode l c 0 False"
  by (auto simp add: moveRight_def split: if_splits dest!: andThen_InrD)

lemma moveToBeginningOfLine_InrD:
  "moveToBeginningOfLine config model cursor inSelectionMode = Inr cursor' \<Longrightarrow>
   \<exists>l c. cursor' = move cursor inSelectionMode l c 0 False"
  by (auto simp add: moveToBeginningOfLine_def Let_def dest!: andThen_InrD)

lemma moveToEndOfLine_InrD:
  "moveToEndOfLine config model cursor inSelectionMode = Inr cursor' \<Longrightarrow>
   \<exists>l c. cursor' = move cursor inSelectionMode l c 0 True"
  by (auto simp add: moveToEndOfLine_def Let_def dest!: andThen_InrD)

lemma moveToEndOfBuffer_InrD:
  "moveToEndOfBuffer config model cursor inSelectionMode = Inr cursor' \<Longrightarrow>
   \<exists>l c. cursor' = move cursor inSelectionMode l c 0 False"
  by (auto simp add: moveToEndOfBuffer_def Let_def dest!: andThen_InrD)

text \<open>
  C5, as the code has it.  With a tab size of at least 1 and a cursor state whose
  leftovers are not negative, every operation that returns a state returns one whose
  leftovers are not negative, \<open>moveDown\<close> under the condition that its destination line
  is not clamped to the last line.  (The horizontal, line-relative and buffer-relative
  moves set the leftover to 0; a vertical step that reaches its line takes a column
  whose visible column does not exceed the desired one; \<open>moveUp\<close> clamped to line 1
  takes column 1; a step of \<open>translateDown\<close> or \<open>translateUp\<close> that is clamped stays
  where it is.)
\<close>

theorem operations_keep_leftovers_nonnegative:
  assumes "1 \<le> tabSize config" and "leftoversNonNegative cursor"
  shows "(\<forall>cursor'. moveLeft strings config model cursor inSelectionMode n = Inr cursor'
            \<longrightarrow> leftoversNonNegative cursor')
       \<and> (\<forall>cursor'. moveRight strings config model cursor inSelectionMode n = Inr cursor'
            \<longrightarrow> leftoversNonNegative cursor')
       \<and> (\<forall>cursor'. moveDown config model cursor inSelectionMode n = Inr cursor'
              \<and> lineNumber (stepStart cursor inSelectionMode True) + n \<le> getLineCount model
            \<longrightarrow> leftoversNonNegative cursor')
       \<and> (\<forall>cursor'. translateDown config model cursor = Inr cursor'
            \<longrightarrow> leftoversNonNegative cursor')
       \<and> (\<forall>cursor'. moveUp config model cursor inSelectionMode n = Inr cursor'
            \<longrightarrow> leftoversNonNegative cursor')
       \<and> (\<forall>cursor'. translateUp config model cursor = Inr cursor'
            \<longrightarrow> leftoversNonNegative cursor')
       \<and> (\<forall>cursor'. moveToBeginningOfLine config model cursor inSelectionMode = Inr cursor'
            \<longrightarrow> leftoversNonNegative cursor')
       \<and> (\<forall>cursor'. moveToEndOfLine config model cursor inSelectionMode = Inr cursor'
            \<longrightarrow> leftoversNonNegative cursor')
       \<and> (\<forall>cursor'. moveToBeginningOfBuffer config model cursor inSelectionMode = Inr cursor'
            \<longrightarrow> leftoversNonNegative cursor')
       \<and> (\<forall>cursor'. moveToEndOfBuffer config model cursor inSelectionMode = Inr cursor'
            \<longrightarrow> leftoversNonNegative cursor')"
proof -
  from assms(2) have lo: "0 \<le> SingleCursorState.leftoverVisibleColumns cursor"
    and alo: "0 \<le> selectionStartLeftoverVisibleColumns cursor"
    by (simp_all add: leftoversNonNegative_def)
  have plain: "leftoversNonNegative (move cursor inSelectionMode l c 0 sticky)" for l c sticky
    using assms(2) by (simp add: leftoversNonNegative_move)
  have ml: "leftoversNonNegative cursor'"
    if "moveLeft strings config model cursor inSelectionMode n = Inr cursor'" for cursor'
    using moveLeft_InrD [OF that] plain by auto
  have mr: "leftoversNonNegative cursor'"
    if "moveRight strings config model cursor inSelectionMode n = Inr cursor'" for cursor'
    using moveRight_InrD [OF that] plain by auto
  have md: "leftoversNonNegative cursor'"
    if "moveDown config model cursor inSelectionMode n = Inr cursor'"
      and "lineNumber (stepStart cursor inSelectionMode True) + n \<le> getLineCount model"
    for cursor'
  proof -
    from moveDown_InrD [OF that(1)] obtain c r where
      r: "down config model (lineNumber (stepStart cursor inSelectionMode True)) c
            (SingleCursorState.leftoverVisibleColumns cursor) n True = Inr r"
      and c': "cursor' = move cursor inSelectionMode (lineNumber r)
                 (if isEnd cursor then c else column r)
                 (CursorPosition.leftoverVisibleColumns r) (isEnd cursor)"
      by blast
    from down_leftover_nonneg [OF assms(1) lo r that(2)] c' assms(2)
    show ?thesis by (simp add: leftoversNonNegative_move)
  qed
  have td: "leftoversNonNegative cursor'"
    if "translateDown config model cursor = Inr cursor'" for cursor'
  proof -
    from translateDown_InrD [OF that] obtain a p where
      "down config model (lineNumber (selectionStart cursor)) (column (selectionStart cursor))
         (selectionStartLeftoverVisibleColumns cursor) 1 False = Inr a"
      "down config model (lineNumber (position cursor)) (column (position cursor))
         (SingleCursorState.leftoverVisibleColumns cursor) 1 False = Inr p"
      "selectionStartLeftoverVisibleColumns cursor' = CursorPosition.leftoverVisibleColumns a"
      "SingleCursorState.leftoverVisibleColumns cursor' = CursorPosition.leftoverVisibleColumns p"
      by blast
    with down_one_line_leftover_nonneg [OF assms(1) alo]
      down_one_line_leftover_nonneg [OF assms(1) lo]
    show ?thesis by (simp add: leftoversNonNegative_def)
  qed
  have mu: "leftoversNonNegative cursor'"
    if "moveUp config model cursor inSelectionMode n = Inr cursor'" for cursor'
  proof -
    from moveUp_InrD [OF that] obtain c r where
      r: "up config model (lineNumber (stepStart cursor inSelectionMode False)) c
            (SingleCursorState.leftoverVisibleColumns cursor) n True = Inr r"
      and c': "cursor' = move cursor inSelectionMode (lineNumber r)
                 (if isEnd cursor then c else column r)
                 (CursorPosition.leftoverVisibleColumns r) (isEnd cursor)"
      by blast
    from up_leftover_nonneg [OF assms(1) lo r] c' assms(2)
    show ?thesis by (simp add: leftoversNonNegative_move)
  qed
  have tu: "leftoversNonNegative cursor'"
    if "translateUp config model cursor = Inr cursor'" for cursor'
  proof -
    from translateUp_InrD [OF that] obtain a p where
      "up config model (lineNumber (selectionStart cursor)) (column (selectionStart cursor))
         (selectionStartLeftoverVisibleColumns cursor) 1 False = Inr a"
      "up config model (lineNumber (position cursor)) (column (position cursor))
         (SingleCursorState.leftoverVisibleColumns cursor) 1 False = Inr p"
      "selectionStartLeftoverVisibleColumns cursor' = CursorPosition.leftoverVisibleColumns a"
      "SingleCursorState.leftoverVisibleColumns cursor' = CursorPosition.leftoverVisibleColumns p"
      by blast
    with up_one_line_leftover_nonneg [OF assms(1) alo]
      up_one_line_leftover_nonneg [OF assms(1) lo]
    show ?thesis by (simp add: leftoversNonNegative_def)
  qed
  have bl: "leftoversNonNegative cursor'"
    if "moveToBeginningOfLine config model cursor inSelectionMode = Inr cursor'" for cursor'
    using moveToBeginningOfLine_InrD [OF that] plain by auto
  have el: "leftoversNonNegative cursor'"
    if "moveToEndOfLine config model cursor inSelectionMode = Inr cursor'" for cursor'
    using moveToEndOfLine_InrD [OF that] plain by auto
  have bb: "leftoversNonNegative cursor'"
    if "moveToBeginningOfBuffer config model cursor inSelectionMode = Inr cursor'" for cursor'
    using that plain by (auto simp add: moveToBeginningOfBuffer_def)
  have eb: "leftoversNonNegative cursor'"
    if "moveToEndOfBuffer config model cursor inSelectionMode = Inr cursor'" for cursor'
    using moveToEndOfBuffer_InrD [OF that] plain by auto
  from ml mr md td mu tu bl el bb eb show ?thesis by blast
qed

theorem operations_keep_leftovers_nonnegative_witness:
  "1 \<le> tabSize \<lparr> tabSize = 4 \<rparr>
   \<and> leftoversNonNegative (caret 1 3 0 False)
   \<and> moveLeft surrogatePairs \<lparr> tabSize = 4 \<rparr> [[97, 98, 99], [9, 120]] (caret 1 3 0 False) False 1
       = Inr (caret 1 2 0 False)
   \<and> leftoversNonNegative (caret 1 2 0 False)
   \<and> moveRight surrogatePairs \<lparr> tabSize = 4 \<rparr> [[97, 98, 99], [9, 120]] (caret 1 3 0 False) False 1
       = Inr (caret 1 4 0 False)
   \<and> leftoversNonNegative (caret 1 4 0 False)
   \<and> moveDown \<lparr> tabSize = 4 \<rparr> [[97, 98, 99], [9, 120]] (caret 1 3 0 False) False 1
       = Inr (caret 2 1 2 False)
   \<and> lineNumber (stepStart (caret 1 3 0 False) False True) + 1
       \<le> getLineCount [[97, 98, 99], [9, 120]]
   \<and> translateDown \<lparr> tabSize = 4 \<rparr> [[97, 98, 99], [9, 120]] (caret 1 3 0 False)
       = Inr (caret 2 1 2 False)
   \<and> leftoversNonNegative (caret 2 1 2 False)
   \<and> moveUp \<lparr> tabSize = 4 \<rparr> [[97, 98, 99], [9, 120]] (caret 1 3 0 False) False 1
       = Inr (caret 1 1 2 False)
   \<and> leftoversNonNegative (caret 1 1 2 False)
   \<and> translateUp \<lparr> tabSize = 4 \<rparr> [[97, 98, 99], [9, 120]] (caret 1 3 0 False)
       = Inr (caret 1 3 0 False)
   \<and> moveToBeginningOfLine \<lparr> tabSize = 4 \<rparr> [[97, 98, 99], [9, 120]] (caret 1 3 0 False) False
       = Inr (caret 1 1 0 False)
   \<and> moveToBeginningOfBuffer \<lparr> tabSize = 4 \<rparr> [[97, 98, 99], [9, 120]] (caret 1 3 0 False) False
       = Inr (caret 1 1 0 False)
   \<and> leftoversNonNegative (caret 1 1 0 False)
   \<and> moveToEndOfLine \<lparr> tabSize = 4 \<rparr> [[97, 98, 99], [9, 120]] (caret 1 3 0 False) False
       = Inr (caret 1 4 0 True)
   \<and> leftoversNonNegative (caret 1 4 0 True)
   \<and> moveToEndOfBuffer \<lparr> tabSize = 4 \<rparr> [[97, 98, 99], [9, 120]] (caret 1 3 0 False) False
       = Inr (caret 2 3 0 False)
   \<and> leftoversNonNegative (caret 2 3 0 False)"
proof -
  let ?cfg = "\<lparr> tabSize = 4 \<rparr>" and ?m = "[[97, 98, 99], [9, 120]] :: ICursorSimpleModel"
  let ?cur = "caret 1 3 0 False"
  note buffer = getLineMaxColumn_def getLineContent_def getLineCount_def getLineMinColumn_def
    andThen_def
  note vertical = down_def up_def columnFromVisibleColumn2_def columnFromVisibleColumn_def
    visibleColumnFromColumn_def charWidth_def nextTabStop_def Let_def
  note state = caret_def hasSelection_def selection_def move_def
  have ts: "1 \<le> tabSize ?cfg" by simp
  have inv: "leftoversNonNegative ?cur" by (simp add: leftoversNonNegative_def caret_def)
  have e1: "moveLeft surrogatePairs ?cfg ?m ?cur False 1 = Inr (caret 1 2 0 False)"
    by (simp add: moveLeft_def left_def leftPosition_def surrogatePairs_def
          surrogatePairPrevCharLength_def isLowSurrogate_def buffer state)
  have e2: "moveRight surrogatePairs ?cfg ?m ?cur False 1 = Inr (caret 1 4 0 False)"
    by (simp add: moveRight_def right_def rightPosition_def surrogatePairs_def
          surrogatePairNextCharLength_def isHighSurrogate_def buffer state)
  have e3: "moveDown ?cfg ?m ?cur False 1 = Inr (caret 2 1 2 False)"
    by (simp add: moveDown_def buffer vertical state)
  have e3': "lineNumber (stepStart ?cur False True) + 1 \<le> getLineCount ?m"
    by (simp add: stepStart_def getLineCount_def state)
  have e4: "translateDown ?cfg ?m ?cur = Inr (caret 2 1 2 False)"
    by (simp add: translateDown_def buffer vertical state)
  have e5: "moveUp ?cfg ?m ?cur False 1 = Inr (caret 1 1 2 False)"
    by (simp add: moveUp_def buffer vertical state)
  have e6: "translateUp ?cfg ?m ?cur = Inr (caret 1 3 0 False)"
    by (simp add: translateUp_def buffer vertical state)
  have e7: "moveToBeginningOfLine ?cfg ?m ?cur False = Inr (caret 1 1 0 False)"
    by (simp add: moveToBeginningOfLine_def getLineFirstNonWhitespaceColumn_def orElse_def
          isWhitespace_def buffer state Let_def)
  have e8: "moveToEndOfLine ?cfg ?m ?cur False = Inr (caret 1 4 0 True)"
    by (simp add: moveToEndOfLine_def buffer state Let_def)
  have e9: "moveToBeginningOfBuffer ?cfg ?m ?cur False = Inr (caret 1 1 0 False)"
    by (simp add: moveToBeginningOfBuffer_def state)
  have e10: "moveToEndOfBuffer ?cfg ?m ?cur False = Inr (caret 2 3 0 False)"
    by (simp add: moveToEndOfBuffer_def buffer state Let_def)
  note th = operations_keep_leftovers_nonnegative [OF ts inv, of surrogatePairs ?m False 1]
  from th e1 have r1: "leftoversNonNegative (caret 1 2 0 False)" by blast
  from th e2 have r2: "leftoversNonNegative (caret 1 4 0 False)" by blast
  from th e3 e3' have r3: "leftoversNonNegative (caret 2 1 2 False)" by blast
  from th e5 have r5: "leftoversNonNegative (caret 1 1 2 False)" by blast
  from th e7 have r7: "leftoversNonNegative (caret 1 1 0 False)" by blast
  from th e8 have r8: "leftoversNonNegative (caret 1 4 0 True)" by blast
  from th e10 have r10: "leftoversNonNegative (caret 2 3 0 False)" by blast
  from ts inv e1 e2 e3 e3' e4 e5 e6 e7 e8 e9 e10 r1 r2 r3 r5 r7 r8 r10
  show ?thesis by blast
qed

text \<open>
  C5 as stated fails.  Buffer \<open>abc\<close>, one line: \<open>moveDown\<close> from the caret (1, 1)
  with leftover 0 is clamped to the last line, snaps to its max column 4 and returns
  the leftover \<open>0 - 3\<close>.
\<close>

theorem moveDown_clamped_leftover_negative:
  "leftoversNonNegative (caret 1 1 0 False)
   \<and> moveDown \<lparr> tabSize = 4 \<rparr> [[97, 98, 99]] (caret 1 1 0 False) False 1
       = Inr (caret 1 4 (- 3) False)
   \<and> \<not> leftoversNonNegative (caret 1 4 (- 3) False)
   \<and> down \<lparr> tabSize = 4 \<rparr> [[97, 98, 99]] 1 1 0 1 True
       = Inr \<lparr> lineNumber = 1, column = 4, CursorPosition.leftoverVisibleColumns = - 3 \<rparr>"
  by (simp add: leftoversNonNegative_def caret_def moveDown_def hasSelection_def move_def
        getLineMaxColumn_def getLineContent_def getLineCount_def andThen_def down_def
        visibleColumnFromColumn_def charWidth_def Let_def)

section \<open>Down and up again\<close>



end
